theory Spec2Isabelle
  imports Complex_Main "HOL-Library.Product_Lexorder"
begin

section \<open>Strings as Python sees them\<close>

text \<open>
  A Python \<open>str\<close> is modelled as a \<open>string\<close> whose characters are the code points
  below 256. \<open>str.isspace\<close> holds there for the code points 9 to 13, 28 to 32, 133 and
  160; \<open>str.strip()\<close> removes such characters at both ends, and \<open>str.split()\<close> cuts at
  every run of them and keeps no empty piece.
\<close>

definition is_space :: "char \<Rightarrow> bool" where
  "is_space c = ((of_char c :: nat) \<in> {9, 10, 11, 12, 13, 28, 29, 30, 31, 32, 133, 160})"

definition strip :: "string \<Rightarrow> string" where
  "strip s = rev (dropWhile is_space (rev (dropWhile is_space s)))"

fun split_from :: "string \<Rightarrow> string \<Rightarrow> string list" where
  "split_from cur [] = (if cur = [] then [] else [cur])"
| "split_from cur (c # cs) =
     (if is_space c then (if cur = [] then split_from [] cs else cur # split_from [] cs)
      else split_from (cur @ [c]) cs)"

definition split :: "string \<Rightarrow> string list" where
  "split s = split_from [] s"

text \<open>Python's truthiness of an optional string: \<open>None\<close> and \<open>""\<close> are falsy.\<close>

fun truthy_str :: "string option \<Rightarrow> bool" where
  "truthy_str None = False"
| "truthy_str (Some s) = (s \<noteq> [])"

section \<open>Exceptions\<close>

text \<open>
  An exception is its class and its message; \<open>OtherError\<close> carries the name of
  any class that the model does not tell apart.
\<close>

datatype py_error =
  ValueError string
  | AttributeError string
  | ValidationError string
  | OtherError string string

fun exc_type_name :: "py_error \<Rightarrow> string" where
  "exc_type_name (ValueError m) = ''ValueError''"
| "exc_type_name (AttributeError m) = ''AttributeError''"
| "exc_type_name (ValidationError m) = ''ValidationError''"
| "exc_type_name (OtherError n m) = n"

fun exc_str :: "py_error \<Rightarrow> string" where
  "exc_str (ValueError m) = m"
| "exc_str (AttributeError m) = m"
| "exc_str (ValidationError m) = m"
| "exc_str (OtherError n m) = m"

section \<open>Story architect: configuration (config.py)\<close>

text \<open>
  The fields of \<open>StoryArchitectConfig\<close> that the modelled code reads. Python floats are
  modelled as rationals.
\<close>

record StoryArchitectConfig =
  openai_api_key :: string
  openai_model :: string
  openai_max_tokens :: int
  openai_temperature :: rat
  openai_timeout_seconds :: int
  override_llm_provider :: "string option"
  override_llm_model :: "string option"
  override_llm_api_key :: "string option"
  override_llm_max_tokens :: "int option"
  override_llm_temperature :: "rat option"
  word_limit_soft :: int
  word_limit_hard :: int
  deterministic_seed_enabled :: bool

record llm_config =
  provider :: string
  model :: string
  api_key :: string
  max_tokens :: int
  temperature :: rat
  timeout :: int

definition use_llm_override :: "'a StoryArchitectConfig_scheme \<Rightarrow> bool" where
  "use_llm_override c =
     (override_llm_provider c \<noteq> None \<and> override_llm_model c \<noteq> None \<and>
      override_llm_api_key c \<noteq> None)"

text \<open>\<open>a or b\<close> on an optional number: \<open>None\<close> and zero are falsy.\<close>

fun py_or :: "'a::zero option \<Rightarrow> 'a \<Rightarrow> 'a" where
  "py_or None b = b"
| "py_or (Some a) b = (if a = 0 then b else a)"

definition effective_llm_config :: "'a StoryArchitectConfig_scheme \<Rightarrow> llm_config" where
  "effective_llm_config c =
     (if use_llm_override c then
        \<lparr> provider = the (override_llm_provider c),
          model = the (override_llm_model c),
          api_key = the (override_llm_api_key c),
          max_tokens = py_or (override_llm_max_tokens c) (openai_max_tokens c),
          temperature = py_or (override_llm_temperature c) (openai_temperature c),
          timeout = openai_timeout_seconds c \<rparr>
      else
        \<lparr> provider = ''openai'',
          model = openai_model c,
          api_key = openai_api_key c,
          max_tokens = openai_max_tokens c,
          temperature = openai_temperature c,
          timeout = openai_timeout_seconds c \<rparr>)"

text \<open>A configuration whose override is fully specified, with zero limits.\<close>

definition override_zero_config :: StoryArchitectConfig where
  "override_zero_config =
     \<lparr> openai_api_key = ''sk-openai'', openai_model = ''gpt-4o-mini'',
       openai_max_tokens = 2000, openai_temperature = 7 / 10, openai_timeout_seconds = 6,
       override_llm_provider = Some ''other'', override_llm_model = Some ''other-model'',
       override_llm_api_key = Some ''sk-other'', override_llm_max_tokens = Some 0,
       override_llm_temperature = Some 0, word_limit_soft = 80, word_limit_hard = 120,
       deterministic_seed_enabled = True \<rparr>"

section \<open>Story architect: tag arrays of a concept brief (story\_models.py)\<close>

definition validate_tag_arrays :: "string list \<Rightarrow> py_error + string list" where
  "validate_tag_arrays v =
     (if v = [] then Inl (ValueError ''Tag arrays must have at least one item'')
      else
        let v' = (if length v > 3 then take 3 v else v)
        in Inr (map strip (filter (\<lambda>tag. strip tag \<noteq> []) v')))"

section \<open>Numbers as Python prints and rounds them\<close>

text \<open>
  \<open>str(i)\<close> of an integer: its decimal digits, with a leading minus sign.
  \<open>digit_char\<close> is applied to numbers below ten only.
\<close>

definition digit_char :: "nat \<Rightarrow> char" where
  "digit_char d = ''0123456789'' ! d"

function str_nat :: "nat \<Rightarrow> string" where
  "str_nat n = (if n < 10 then [digit_char n] else str_nat (n div 10) @ [digit_char (n mod 10)])"
  by pat_completeness auto
termination
  by (relation "measure id") auto

declare str_nat.simps [simp del]

definition str_int :: "int \<Rightarrow> string" where
  "str_int i = (if i < 0 then CHR ''-'' # str_nat (nat (- i)) else str_nat (nat i))"

text \<open>
  \<open>round(x, n)\<close> rounds to \<open>n\<close> decimal places, a tie going to the even neighbour.
  Floats are modelled as rationals, so the value rounded is the exact one.
\<close>

definition round_half_even :: "rat \<Rightarrow> int" where
  "round_half_even y =
     (let f = \<lfloor>y\<rfloor>; d = y - of_int f
      in if d < 1 / 2 then f else if d > 1 / 2 then f + 1 else if even f then f else f + 1)"

definition py_round :: "rat \<Rightarrow> nat \<Rightarrow> rat" where
  "py_round x n = of_int (round_half_even (x * 10 ^ n)) / 10 ^ n"

section \<open>Video editor: models (models.py) and the assemble\_video tool\<close>

text \<open>
  The request is modelled after JSON decoding, every field holding a value of its
  declared type; the constraints that pydantic checks on those values (the bounds of a
  duration, the validator \<open>limit_segments\<close>) are functions of the model. The fields
  \<open>scene_number\<close> and \<open>shot_order\<close> of a segment carry the prefix \<open>seg\<close>, the fields
  of an event and of the final edit the prefixes \<open>ev\<close> and \<open>final\<close>, to keep them apart
  from fields of the same name in other records.
\<close>

datatype transition_kind = hard_cut | crossfade_0p5

record VideoSegment =
  segment_id :: string
  video_url :: string
  duration_seconds :: rat
  seg_scene_number :: "int option"
  seg_shot_order :: "int option"

record AssemblySettings =
  transition :: transition_kind
  fade_out_seconds :: "rat option"
  output_resolution :: "string option"
  frame_rate :: "int option"

record ProjectContext =
  project_id :: string
  episode_id :: "string option"

record AssembleVideoRequest =
  video_segments :: "VideoSegment list"
  assembly_settings :: "AssemblySettings option"
  project_context :: "ProjectContext option"

record TimelineEvent =
  ev_segment_id :: string
  start_time :: rat
  end_time :: rat
  transition_out :: transition_kind

record FinalEdit =
  final_video_url :: "string option"
  final_duration_seconds :: rat
  edit_timeline :: "TimelineEvent list"
  checksum :: string

definition default_AssemblySettings :: AssemblySettings where
  "default_AssemblySettings =
     \<lparr> transition = hard_cut, fade_out_seconds = Some 1,
       output_resolution = Some ''1280x720'', frame_rate = Some 24 \<rparr>"

text \<open>\<open>duration_seconds: float = Field(gt=0, le=15)\<close>.\<close>

definition duration_field_ok :: "VideoSegment \<Rightarrow> bool" where
  "duration_field_ok s = (0 < duration_seconds s \<and> duration_seconds s \<le> 15)"

definition limit_segments :: "VideoSegment list \<Rightarrow> py_error + VideoSegment list" where
  "limit_segments v =
     (if length v = 0 then Inl (ValueError ''At least one segment required'')
      else if length v > 3 then Inl (ValueError ''Max 3 segments allowed in MVP'')
      else
        let total = sum_list (map duration_seconds v)
        in if total > 15 then Inl (ValueError ''Total duration must be <= 15 seconds for MVP'')
           else Inr v)"

text \<open>
  \<open>AssembleVideoRequest(**input_data)\<close>: the segments are validated one by one, and
  the validator of the list runs when all of them passed. A \<open>ValueError\<close> of a
  validator reaches the caller as a \<open>ValidationError\<close>.
\<close>

definition parse_AssembleVideoRequest ::
    "AssembleVideoRequest \<Rightarrow> py_error + AssembleVideoRequest" where
  "parse_AssembleVideoRequest input =
     (if \<not> list_all duration_field_ok (video_segments input)
      then Inl (ValidationError ''video_segments: duration_seconds out of bounds'')
      else
        case limit_segments (video_segments input) of
          Inl e \<Rightarrow> Inl (ValidationError (exc_str e))
        | Inr v \<Rightarrow> Inr input)"

text \<open>The loop of step 2 of \<open>execute\<close>: the state is the timeline and the cursor.\<close>

definition timeline_step ::
    "transition_kind \<Rightarrow> TimelineEvent list \<times> rat \<Rightarrow> VideoSegment \<Rightarrow> TimelineEvent list \<times> rat" where
  "timeline_step tr st seg =
     (let start = snd st;
          end' = start + duration_seconds seg
      in (fst st @ [\<lparr> ev_segment_id = segment_id seg, start_time = py_round start 3,
                      end_time = py_round end' 3, transition_out = tr \<rparr>],
          end'))"

definition build_timeline :: "AssemblySettings \<Rightarrow> VideoSegment list \<Rightarrow> TimelineEvent list" where
  "build_timeline settings segs = fst (foldl (timeline_step (transition settings)) ([], 0) segs)"

definition settings_of :: "AssembleVideoRequest \<Rightarrow> AssemblySettings" where
  "settings_of req =
     (case assembly_settings req of None \<Rightarrow> default_AssemblySettings | Some s \<Rightarrow> s)"

text \<open>
  What \<open>execute\<close> does to the world, in order: the working directory, one download
  per segment, the encoder, the upload and the assembly record of the CMS, the cleanup.
  The outcomes of the external calls are parameters of the model.
\<close>

datatype io_event =
  Mkdir
  | Download string
  | Encode "string list"
  | UploadMedia string
  | CreateAssembly
  | Cleanup

record editor_world =
  http_get :: "string \<Rightarrow> py_error option"
  assemble_videos :: "string list \<Rightarrow> AssemblySettings \<Rightarrow> TimelineEvent list \<Rightarrow> py_error + rat"
  sha256_file :: "string \<Rightarrow> string"
  upload_media_file :: "string \<Rightarrow> py_error + string option"
  create_video_assembly :: "py_error option"

datatype assemble_result =
  ErrorEnvelope string string
  | FinalEditResponse FinalEdit

fun download_segments ::
    "editor_world \<Rightarrow> VideoSegment list \<Rightarrow> (py_error + string list) \<times> io_event list" where
  "download_segments w [] = (Inr [], [])"
| "download_segments w (seg # segs) =
     (case http_get w (video_url seg) of
        Some e \<Rightarrow> (Inl e, [Download (video_url seg)])
      | None \<Rightarrow>
         (case download_segments w segs of
            (Inl e, evs) \<Rightarrow> (Inl e, Download (video_url seg) # evs)
          | (Inr paths, evs) \<Rightarrow>
              (Inr ((segment_id seg @ ''.mp4'') # paths), Download (video_url seg) # evs)))"

fun join_with :: "string \<Rightarrow> string list \<Rightarrow> string" where
  "join_with sep [] = []"
| "join_with sep [x] = x"
| "join_with sep (x # y # ys) = x @ sep @ join_with sep (y # ys)"

definition deterministic_output_name :: "AssembleVideoRequest \<Rightarrow> string" where
  "deterministic_output_name req =
     (case project_context req of
        Some pc \<Rightarrow>
          let scene_parts = map str_int (List.map_filter seg_scene_number (video_segments req));
              scenes = (if scene_parts \<noteq> [] then ''_'' @ join_with ''-'' scene_parts else [])
          in project_id pc @ ''_'' @
             (if truthy_str (episode_id pc) then the (episode_id pc) else ''ep'') @
             scenes @ ''_draft.mp4''
      | None \<Rightarrow> ''final_draft.mp4'')"

definition error_envelope :: "py_error \<Rightarrow> assemble_result" where
  "error_envelope e = ErrorEnvelope (exc_type_name e) (exc_str e)"

definition execute_assemble ::
    "editor_world \<Rightarrow> AssembleVideoRequest \<Rightarrow> assemble_result \<times> io_event list" where
  "execute_assemble w input =
     (case parse_AssembleVideoRequest input of
        Inl e \<Rightarrow> (error_envelope e, [Mkdir, Cleanup])
      | Inr req \<Rightarrow>
          let settings = settings_of req;
              timeline = build_timeline settings (video_segments req)
          in case download_segments w (video_segments req) of
               (Inl e, evs) \<Rightarrow> (error_envelope e, Mkdir # evs @ [Cleanup])
             | (Inr paths, evs) \<Rightarrow>
                 let output_filename = deterministic_output_name req
                 in case assemble_videos w paths settings timeline of
                      Inl e \<Rightarrow> (error_envelope e, Mkdir # evs @ [Encode paths, Cleanup])
                    | Inr duration \<Rightarrow>
                        (case upload_media_file w output_filename of
                           Inl e \<Rightarrow>
                             (error_envelope e,
                              Mkdir # evs @ [Encode paths, UploadMedia output_filename, Cleanup])
                         | Inr url \<Rightarrow>
                             (case create_video_assembly w of
                                Some e \<Rightarrow>
                                  (error_envelope e,
                                   Mkdir # evs @ [Encode paths, UploadMedia output_filename,
                                                  CreateAssembly, Cleanup])
                              | None \<Rightarrow>
                                  (FinalEditResponse
                                     \<lparr> final_video_url = url,
                                       final_duration_seconds = duration,
                                       edit_timeline = timeline,
                                       checksum = ''sha256:'' @ sha256_file w output_filename \<rparr>,
                                   Mkdir # evs @ [Encode paths, UploadMedia output_filename,
                                                  CreateAssembly, Cleanup]))))"

text \<open>Sample segments, a request without settings, and a world in which every external call succeeds.\<close>

definition seg :: "string \<Rightarrow> rat \<Rightarrow> VideoSegment" where
  "seg sid d = \<lparr> segment_id = sid, video_url = ''https://cdn.example/'' @ sid @ ''.mp4'',
     duration_seconds = d, seg_scene_number = None, seg_shot_order = None \<rparr>"

definition request_of :: "VideoSegment list \<Rightarrow> AssembleVideoRequest" where
  "request_of segs = \<lparr> video_segments = segs, assembly_settings = None, project_context = None \<rparr>"

definition mock_world :: editor_world where
  "mock_world = \<lparr> http_get = (\<lambda>url. None),
     assemble_videos = (\<lambda>paths settings timeline. Inr 7),
     sha256_file = (\<lambda>path. ''00''),
     upload_media_file = (\<lambda>name. Inr (Some ''https://cms.example/media/1'')),
     create_video_assembly = None \<rparr>"

section \<open>Video generation: frame grouping (grouping.py)\<close>

record GeneratedFrame =
  frame_id :: string
  image_url :: string
  scene_number :: int
  shot_order :: int

text \<open>
  The loop of \<open>group_frames_into_segments\<close>: its state is the list of chunks, the
  chunk being filled and the scene of that chunk.
\<close>

type_synonym group_state = "GeneratedFrame list list \<times> GeneratedFrame list \<times> int option"

definition group_step :: "int \<Rightarrow> group_state \<Rightarrow> GeneratedFrame \<Rightarrow> group_state" where
  "group_step default_chunk_size st fr =
     (case st of (chunks, current, current_scene) \<Rightarrow>
        let current_scene = (if current_scene = None then Some (scene_number fr) else current_scene);
            (chunks, current, current_scene) =
              (if Some (scene_number fr) \<noteq> current_scene
               then (if current \<noteq> [] then (chunks @ [current], [], Some (scene_number fr))
                     else (chunks, current, Some (scene_number fr)))
               else (chunks, current, current_scene));
            current = current @ [fr]
        in if int (length current) \<ge> max 1 default_chunk_size
           then (chunks @ [current], [], current_scene)
           else (chunks, current, current_scene))"

text \<open>A frame of the tests, and the five frames of three scenes in some order.\<close>

definition gf :: "string \<Rightarrow> int \<Rightarrow> int \<Rightarrow> GeneratedFrame" where
  "gf fid scene shot = \<lparr> frame_id = fid, image_url = ''https://example.com/img.png'',
     scene_number = scene, shot_order = shot \<rparr>"

text \<open>After the loop: \<open>if current: chunks.append(current)\<close>.\<close>

definition flush_remaining :: "group_state \<Rightarrow> GeneratedFrame list list" where
  "flush_remaining st =
     (case st of (chunks, current, current_scene) \<Rightarrow>
        if current \<noteq> [] then chunks @ [current] else chunks)"

definition group_frames_into_segments ::
    "GeneratedFrame list \<Rightarrow> int \<Rightarrow> rat \<Rightarrow> rat \<Rightarrow> GeneratedFrame list list" where
  "group_frames_into_segments generated_frames default_chunk_size duration_per_segment max_total_runtime =
     (if generated_frames = [] then []
      else
        let sorted_frames = sort_key (\<lambda>f. (scene_number f, shot_order f)) generated_frames;
            chunks = flush_remaining
               (foldl (group_step default_chunk_size) ([], [], None) sorted_frames);
            duration_per_segment = (if duration_per_segment \<le> 0 then 3 else duration_per_segment);
            max_by_runtime = \<lfloor>max_total_runtime / duration_per_segment\<rfloor>;
            max_segments = max 1 (min 3 max_by_runtime)
        in map (take 2) (take (nat max_segments) chunks))"

text \<open>The cap on the number of segments, as the last lines of the function compute it.\<close>

definition max_segments_of :: "rat \<Rightarrow> rat \<Rightarrow> nat" where
  "max_segments_of duration_per_segment max_total_runtime =
     nat (max 1 (min 3 \<lfloor>max_total_runtime / (if duration_per_segment \<le> 0 then 3 else duration_per_segment)\<rfloor>))"

definition five_frames :: "GeneratedFrame list" where
  "five_frames = [gf ''SCENE_3_SHOT_1'' 3 1, gf ''SCENE_1_SHOT_2'' 1 2, gf ''SCENE_2_SHOT_1'' 2 1,
     gf ''SCENE_2_SHOT_2'' 2 2, gf ''SCENE_1_SHOT_1'' 1 1]"

text \<open>
  The chunks as the specification words them: walk the sorted frames, put two
  neighbours of one scene into one chunk, a frame whose neighbour belongs to another
  scene (or is missing) into a chunk of its own.
\<close>

fun pair_chunks :: "GeneratedFrame list \<Rightarrow> GeneratedFrame list list" where
  "pair_chunks [] = []"
| "pair_chunks [a] = [[a]]"
| "pair_chunks (a # b # fs) =
     (if scene_number a = scene_number b then [a, b] # pair_chunks fs
      else [a] # pair_chunks (b # fs))"

section \<open>Video generation: the handler of synthesize\_video\_segments (mcp\_server.py)\<close>

text \<open>
  The records of schemas.py that the handler reads and writes. Fields whose names other
  records of this theory use already carry a prefix (\<open>sb\<close>, \<open>pm\<close>, \<open>gen\<close>, \<open>failed\<close>,
  \<open>resp\<close>); \<open>project_context\<close> of the payload is left out, the handler never reads it.
\<close>

record StoryboardFrame =
  sb_frame_id :: string
  description :: string
  camera_notes :: "string option"
  prompt_seed :: "string option"
  sb_duration_seconds :: "rat option"

record VideoSettings =
  duration_per_segment :: rat
  motion_strength :: "rat option"
  provider_override :: "string option"

record RequestPayload =
  generated_frames :: "GeneratedFrame list"
  storyboard_frames :: "StoryboardFrame list"
  video_settings :: "VideoSettings option"

record ProviderMetadata =
  pm_provider :: string
  pm_model :: "string option"
  job_id :: "string option"
  webhook_id :: "string option"

record GenVideoSegment =
  gen_segment_id :: string
  associated_frames :: "string list"
  gen_video_url :: string
  gen_duration_seconds :: rat
  gen_provider_metadata :: ProviderMetadata

record FailedSegment =
  failed_segment_id :: string
  error :: string
  message :: string

record ResponsePayload =
  resp_video_segments :: "GenVideoSegment list"
  failed_segments :: "FailedSegment list"

record segment_spec =
  spec_segment_id :: string
  frame_ids :: "string list"

definition to_segment_specs :: "GeneratedFrame list list \<Rightarrow> segment_spec list" where
  "to_segment_specs chunks =
     map (\<lambda>(i, seg). \<lparr> spec_segment_id = ''SEGMENT_'' @ str_nat i, frame_ids = map frame_id seg \<rparr>)
       (enumerate 1 chunks)"

text \<open>
  The arguments of one call of \<open>client.synthesize\<close>, and what the provider answers: a
  result, or the exception it raises. The provider is a parameter of the model; its
  answer may depend on how many calls came before.
\<close>

record synth_call =
  primary_image_url :: string
  secondary_image_url :: "string option"
  prompt :: string
  call_duration_seconds :: rat
  call_motion_strength :: "rat option"

record synth_result =
  synth_video_url :: string
  provider_metadata :: ProviderMetadata

type_synonym provider = "nat \<Rightarrow> synth_call \<Rightarrow> py_error + synth_result"

definition duration_of :: "RequestPayload \<Rightarrow> rat" where
  "duration_of payload =
     (case video_settings payload of Some vs \<Rightarrow> duration_per_segment vs | None \<Rightarrow> 3)"

definition motion_strength_of :: "RequestPayload \<Rightarrow> rat option" where
  "motion_strength_of payload =
     (case video_settings payload of Some vs \<Rightarrow> motion_strength vs | None \<Rightarrow> None)"

definition segment_specs :: "RequestPayload \<Rightarrow> segment_spec list" where
  "segment_specs payload =
     to_segment_specs (group_frames_into_segments (generated_frames payload) 2 (duration_of payload) 12)"

text \<open>
  The body of the loop before the \<open>try\<close>: \<open>frame_ids[0]\<close> raises on an empty list, the
  frames and the storyboard entry are looked up by id, the prompt joins the non-empty
  ones of description, camera notes and prompt seed.
\<close>

definition str_or_empty :: "string option \<Rightarrow> string" where
  "str_or_empty s = (if truthy_str s then the s else [])"

definition segment_call :: "RequestPayload \<Rightarrow> segment_spec \<Rightarrow> py_error + synth_call" where
  "segment_call payload spec =
     (case frame_ids spec of
        [] \<Rightarrow> Inl (OtherError ''IndexError'' ''list index out of range'')
      | fid0 # others \<Rightarrow>
          let primary = find (\<lambda>f. frame_id f = fid0) (generated_frames payload);
              secondary = (case others of
                             [] \<Rightarrow> None
                           | fid1 # _ \<Rightarrow> find (\<lambda>f. frame_id f = fid1) (generated_frames payload));
              sb = find (\<lambda>s. sb_frame_id s = fid0) (storyboard_frames payload);
              desc = strip (case sb of Some s \<Rightarrow> description s | None \<Rightarrow> []);
              cam = strip (case sb of Some s \<Rightarrow> str_or_empty (camera_notes s) | None \<Rightarrow> []);
              seed = strip (case sb of Some s \<Rightarrow> str_or_empty (prompt_seed s) | None \<Rightarrow> []);
              prompt = join_with '' '' (filter (\<lambda>x. x \<noteq> []) [desc, cam, seed])
          in Inr \<lparr> primary_image_url = (case primary of Some f \<Rightarrow> image_url f | None \<Rightarrow> []),
                   secondary_image_url = map_option image_url secondary,
                   prompt = prompt,
                   call_duration_seconds = duration_of payload,
                   call_motion_strength = motion_strength_of payload \<rparr>)"

definition video_segment_of :: "RequestPayload \<Rightarrow> segment_spec \<Rightarrow> synth_result \<Rightarrow> GenVideoSegment" where
  "video_segment_of payload spec synth =
     \<lparr> gen_segment_id = spec_segment_id spec,
       associated_frames = frame_ids spec,
       gen_video_url = synth_video_url synth,
       gen_duration_seconds = duration_of payload,
       gen_provider_metadata = provider_metadata synth \<rparr>"

definition failed_segment_of :: "segment_spec \<Rightarrow> py_error \<Rightarrow> FailedSegment" where
  "failed_segment_of spec e =
     \<lparr> failed_segment_id = spec_segment_id spec, error = ''provider_error'', message = exc_str e \<rparr>"

text \<open>
  The loop over the specs. Its state: the segments synthesized, the failed segments,
  and the ids of the segments for which the provider was called.
\<close>

type_synonym synth_state = "GenVideoSegment list \<times> FailedSegment list \<times> string list"

fun synth_loop ::
    "provider \<Rightarrow> RequestPayload \<Rightarrow> segment_spec list \<Rightarrow> synth_state \<Rightarrow> py_error + synth_state" where
  "synth_loop P payload [] st = Inr st"
| "synth_loop P payload (spec # specs) (vs, fs, attempted) =
     (case segment_call payload spec of
        Inl e \<Rightarrow> Inl e
      | Inr call \<Rightarrow>
          (case P (length attempted) call of
             Inr synth \<Rightarrow>
               synth_loop P payload specs
                 (vs @ [video_segment_of payload spec synth], fs, attempted @ [spec_segment_id spec])
           | Inl e \<Rightarrow>
               Inr (vs, fs @ [failed_segment_of spec e], attempted @ [spec_segment_id spec])))"

definition handle_synthesize ::
    "provider \<Rightarrow> RequestPayload \<Rightarrow> py_error + ResponsePayload \<times> string list" where
  "handle_synthesize P payload =
     (case synth_loop P payload (segment_specs payload) ([], [], []) of
        Inl e \<Rightarrow> Inl e
      | Inr (vs, fs, attempted) \<Rightarrow>
          Inr (\<lparr> resp_video_segments = vs, failed_segments = fs \<rparr>, attempted))"

text \<open>The stub of fal\_ai.py, and a provider that fails on its first call.\<close>

definition mock_synth_result :: synth_result where
  "mock_synth_result =
     \<lparr> synth_video_url = ''https://example.com/mock/segment.mp4'',
       provider_metadata = \<lparr> pm_provider = ''fal-ai'',
         pm_model = Some ''fal-ai/veo3/fast/image-to-video'',
         job_id = Some ''mock-job'', webhook_id = None \<rparr> \<rparr>"

definition failing_first :: provider where
  "failing_first n call = (if n = 0 then Inl (OtherError ''RuntimeError'' ''quota exceeded'')
                           else Inr mock_synth_result)"

definition five_payload :: RequestPayload where
  "five_payload = \<lparr> generated_frames = five_frames, storyboard_frames = [], video_settings = None \<rparr>"

section \<open>Story architect: template selection (payload\_service.py)\<close>

text \<open>
  A template document as the CMS returns it: a dictionary that \<open>_select_best_template\<close>
  reads with \<open>get\<close>, so an absent tag and a tag of \<open>None\<close> are the same.
\<close>

record template_doc =
  doc_id :: string
  genre_tag :: "string option"
  tone_tag :: "string option"
  template_text :: string
  priority :: int

record PromptSelectionCriteria =
  primary_genre :: "string option"
  primary_tone :: "string option"
  target_runtime :: "int option"
  fallback_to_default :: bool

definition genre_match :: "PromptSelectionCriteria \<Rightarrow> template_doc \<Rightarrow> bool" where
  "genre_match criteria template =
     (\<not> truthy_str (primary_genre criteria) \<or> genre_tag template = primary_genre criteria)"

definition tone_match :: "PromptSelectionCriteria \<Rightarrow> template_doc \<Rightarrow> bool" where
  "tone_match criteria template =
     (\<not> truthy_str (primary_tone criteria) \<or> tone_tag template = primary_tone criteria)"

text \<open>
  Each \<open>for\<close> loop of the function returns the first template of the list that passes
  its test, which is \<open>find\<close>; the passes follow one another as in the source.
\<close>

definition select_best_template ::
    "template_doc list \<Rightarrow> PromptSelectionCriteria \<Rightarrow> template_doc option" where
  "select_best_template templates criteria =
     (case find (\<lambda>t. genre_match criteria t \<and> tone_match criteria t) templates of
        Some t \<Rightarrow> Some t
      | None \<Rightarrow>
     (case (if truthy_str (primary_genre criteria)
            then find (\<lambda>t. genre_tag t = primary_genre criteria) templates else None) of
        Some t \<Rightarrow> Some t
      | None \<Rightarrow>
     (case (if truthy_str (primary_tone criteria)
            then find (\<lambda>t. tone_tag t = primary_tone criteria) templates else None) of
        Some t \<Rightarrow> Some t
      | None \<Rightarrow>
     (case (if fallback_to_default criteria
            then find (\<lambda>t. \<not> truthy_str (genre_tag t) \<and> \<not> truthy_str (tone_tag t)) templates
            else None) of
        Some t \<Rightarrow> Some t
      | None \<Rightarrow>
     (if templates \<noteq> [] \<and> fallback_to_default criteria then Some (templates ! 0) else None)))))"

text \<open>The three templates of the example, and a request for a genre and a tone.\<close>

definition comedy_dark :: template_doc where
  "comedy_dark = \<lparr> doc_id = ''t1'', genre_tag = Some ''comedy'', tone_tag = Some ''dark'',
     template_text = ''A'', priority = 3 \<rparr>"

definition comedy_only :: template_doc where
  "comedy_only = \<lparr> doc_id = ''t2'', genre_tag = Some ''comedy'', tone_tag = None,
     template_text = ''B'', priority = 2 \<rparr>"

definition untagged :: template_doc where
  "untagged = \<lparr> doc_id = ''t3'', genre_tag = None, tone_tag = None,
     template_text = ''C'', priority = 1 \<rparr>"

definition request_for :: "string option \<Rightarrow> string option \<Rightarrow> PromptSelectionCriteria" where
  "request_for genre tone =
     \<lparr> primary_genre = genre, primary_tone = tone, target_runtime = None,
       fallback_to_default = True \<rparr>"

section \<open>Story architect: word counts of a story arc (story\_models.py, draft\_story\_arc.py)\<close>

text \<open>
  The models as story\_models.py declares them. The sections of a story arc are
  \<open>setup\<close>, \<open>escalation\<close> and \<open>resolution\<close>; the fields of the record carry the prefix
  \<open>arc\<close>, those of a flag the prefix \<open>flag\<close>, where the plain name is a keyword of the
  theory language or the field of another record. The analysis record has four counts
  and two lists; \<open>has_violations\<close> is a property computed from the two lists.
\<close>

datatype ContinuitySeverity = INFO | WARNING | ERROR | CRITICAL

datatype ContinuityFlagCode =
  CHARACTER_NOT_FOUND | LOCATION_UNSPECIFIED | CONFLICT_DRIFT | RUNTIME_FEASIBILITY_RISK
  | TONE_MISMATCH | PACING_ISSUE | WORD_LIMIT_EXCEEDED | GENRE_INCONSISTENCY
  | EMOTIONAL_BEAT_MISSING

record ContinuityFlag =
  flag_code :: ContinuityFlagCode
  flag_message :: string
  severity :: ContinuitySeverity
  flag_context :: "(string \<times> string) list option"

record StoryArc =
  arc_setup :: string
  arc_escalation :: string
  arc_resolution :: string
  emotional_beats :: "string list"
  continuity_flags :: "ContinuityFlag list"
  arc_seed :: "string option"

record WordCountAnalysis =
  setup_words :: int
  escalation_words :: int
  resolution_words :: int
  total_words :: int
  soft_limit_exceeded :: "string list"
  hard_limit_exceeded :: "string list"

definition has_violations :: "WordCountAnalysis \<Rightarrow> bool" where
  "has_violations a = (\<not> (soft_limit_exceeded a = [] \<and> hard_limit_exceeded a = []))"

definition average_words_per_section :: "WordCountAnalysis \<Rightarrow> rat" where
  "average_words_per_section a = (if total_words a > 0 then of_int (total_words a) / 3 else 0)"

text \<open>
  The tool reads attributes by name. An object has the attributes its class declares;
  the read of any other name raises \<open>AttributeError\<close>.
\<close>

datatype attr_value =
  StrValue string
  | IntValue int
  | RatValue rat
  | BoolValue bool
  | StrListValue "string list"
  | OptStrValue "string option"
  | FlagListValue "ContinuityFlag list"

definition no_attribute :: "string \<Rightarrow> string \<Rightarrow> py_error" where
  "no_attribute cls name =
     AttributeError ([CHR 0x27] @ cls @ [CHR 0x27] @ '' object has no attribute ''
                     @ [CHR 0x27] @ name @ [CHR 0x27])"

definition StoryArc_getattr :: "StoryArc \<Rightarrow> string \<Rightarrow> py_error + attr_value" where
  "StoryArc_getattr a name =
     (if name = ''setup'' then Inr (StrValue (arc_setup a))
      else if name = ''escalation'' then Inr (StrValue (arc_escalation a))
      else if name = ''resolution'' then Inr (StrValue (arc_resolution a))
      else if name = ''emotional_beats'' then Inr (StrListValue (emotional_beats a))
      else if name = ''continuity_flags'' then Inr (FlagListValue (continuity_flags a))
      else if name = ''seed'' then Inr (OptStrValue (arc_seed a))
      else Inl (no_attribute ''StoryArc'' name))"

definition WordCountAnalysis_getattr :: "WordCountAnalysis \<Rightarrow> string \<Rightarrow> py_error + attr_value" where
  "WordCountAnalysis_getattr a name =
     (if name = ''setup_words'' then Inr (IntValue (setup_words a))
      else if name = ''escalation_words'' then Inr (IntValue (escalation_words a))
      else if name = ''resolution_words'' then Inr (IntValue (resolution_words a))
      else if name = ''total_words'' then Inr (IntValue (total_words a))
      else if name = ''soft_limit_exceeded'' then Inr (StrListValue (soft_limit_exceeded a))
      else if name = ''hard_limit_exceeded'' then Inr (StrListValue (hard_limit_exceeded a))
      else if name = ''has_violations'' then Inr (BoolValue (has_violations a))
      else if name = ''average_words_per_section'' then Inr (RatValue (average_words_per_section a))
      else Inl (no_attribute ''WordCountAnalysis'' name))"

text \<open>
  \<open>self.config.section_balance_threshold\<close>: config.py declares no setting of this
  name, so the read raises.
\<close>

definition config_section_balance_threshold :: "'a StoryArchitectConfig_scheme \<Rightarrow> py_error + rat" where
  "config_section_balance_threshold config =
     Inl (no_attribute ''StoryArchitectConfig'' ''section_balance_threshold'')"

text \<open>A statement that raises ends the function: the rest runs on a value only.\<close>

fun sum_bind :: "'e + 'a \<Rightarrow> ('a \<Rightarrow> 'e + 'b) \<Rightarrow> 'e + 'b" where
  "sum_bind (Inl e) f = Inl e"
| "sum_bind (Inr x) f = f x"

text \<open>\<open>len(v.split())\<close>, and the use of a value as a number or as a list of strings.\<close>

fun len_split :: "attr_value \<Rightarrow> py_error + int" where
  "len_split (StrValue s) = Inr (int (length (split s)))"
| "len_split v = Inl (AttributeError ''object has no attribute split'')"

fun int_value :: "attr_value \<Rightarrow> py_error + int" where
  "int_value (IntValue i) = Inr i"
| "int_value v = Inl (OtherError ''TypeError'' ''unsupported operand type'')"

fun str_list_value :: "attr_value \<Rightarrow> py_error + string list" where
  "str_list_value (StrListValue xs) = Inr xs"
| "str_list_value v = Inl (OtherError ''TypeError'' ''argument is not iterable'')"

text \<open>
  \<open>_analyze_word_counts\<close>. It sets \<open>has_violations\<close> and appends a code in each of its
  four checks; the pair of both is the state that the checks pass on. The keyword
  arguments of the final \<open>WordCountAnalysis(...)\<close> are names that the class does not
  declare; pydantic drops them, so the object built holds the defaults of the class.
\<close>

definition add_violation :: "bool \<Rightarrow> string \<Rightarrow> bool \<times> string list \<Rightarrow> bool \<times> string list" where
  "add_violation cond code st = (if cond then (True, snd st @ [code]) else st)"

definition default_WordCountAnalysis :: WordCountAnalysis where
  "default_WordCountAnalysis =
     \<lparr> setup_words = 0, escalation_words = 0, resolution_words = 0, total_words = 0,
       soft_limit_exceeded = [], hard_limit_exceeded = [] \<rparr>"

definition analyze_word_counts ::
    "'a StoryArchitectConfig_scheme \<Rightarrow> StoryArc \<Rightarrow> py_error + WordCountAnalysis" where
  "analyze_word_counts config story_arc =
     sum_bind (sum_bind (StoryArc_getattr story_arc ''beginning'') len_split) (\<lambda>beginning_count.
     sum_bind (sum_bind (StoryArc_getattr story_arc ''middle'') len_split) (\<lambda>middle_count.
     sum_bind (sum_bind (StoryArc_getattr story_arc ''end'') len_split) (\<lambda>end_count.
       let total_count = beginning_count + middle_count + end_count;
           st = (False, []);
           st = add_violation (total_count > word_limit_soft config)
                  (if total_count > word_limit_hard config
                   then ''HARD_LIMIT_EXCEEDED'' else ''SOFT_LIMIT_EXCEEDED'') st;
           expected_per_section = (of_int total_count :: rat) / 3
       in sum_bind (config_section_balance_threshold config) (\<lambda>threshold.
            let balance_threshold = expected_per_section * threshold;
                st = add_violation (\<bar>of_int beginning_count - expected_per_section\<bar> > balance_threshold)
                       ''BEGINNING_IMBALANCE'' st;
                st = add_violation (\<bar>of_int middle_count - expected_per_section\<bar> > balance_threshold)
                       ''MIDDLE_IMBALANCE'' st;
                st = add_violation (\<bar>of_int end_count - expected_per_section\<bar> > balance_threshold)
                       ''END_IMBALANCE'' st
            in Inr default_WordCountAnalysis))))"

text \<open>
  \<open>_create_section_imbalance_flag\<close> divides by the expected share and then names the
  code \<open>ContinuityFlagCode.SECTION_IMBALANCE\<close>, which the enumeration does not have; the
  same holds for \<open>WORD_LIMIT_HARD\<close> and \<open>WORD_LIMIT_SOFT\<close> in
  \<open>_create_word_limit_flags\<close>. The code is the first argument of the flag, so the
  read of the missing member raises before anything else of the flag is computed.
\<close>

definition missing_flag_code :: "string \<Rightarrow> py_error" where
  "missing_flag_code name = AttributeError name"

definition create_section_imbalance_flag :: "string \<Rightarrow> int \<Rightarrow> int \<Rightarrow> py_error + ContinuityFlag" where
  "create_section_imbalance_flag section_name word_count total_count =
     (if total_count = 0 then Inl (OtherError ''ZeroDivisionError'' ''float division by zero'')
      else Inl (missing_flag_code ''SECTION_IMBALANCE''))"

definition imbalance_flags ::
    "WordCountAnalysis \<Rightarrow> string list \<Rightarrow> string \<Rightarrow> string \<Rightarrow> string \<Rightarrow> py_error + ContinuityFlag list" where
  "imbalance_flags analysis codes code section_name count_name =
     (if code \<in> set codes then
        sum_bind (sum_bind (WordCountAnalysis_getattr analysis count_name) int_value) (\<lambda>word_count.
        sum_bind (sum_bind (WordCountAnalysis_getattr analysis ''total_count'') int_value) (\<lambda>total_count.
        sum_bind (create_section_imbalance_flag section_name word_count total_count) (\<lambda>flag.
          Inr [flag])))
      else Inr [])"

definition create_word_limit_flags ::
    "'a StoryArchitectConfig_scheme \<Rightarrow> WordCountAnalysis \<Rightarrow> py_error + ContinuityFlag list" where
  "create_word_limit_flags config analysis =
     sum_bind (sum_bind (WordCountAnalysis_getattr analysis ''violation_codes'') str_list_value)
       (\<lambda>codes.
     sum_bind (if ''HARD_LIMIT_EXCEEDED'' \<in> set codes then Inl (missing_flag_code ''WORD_LIMIT_HARD'')
               else if ''SOFT_LIMIT_EXCEEDED'' \<in> set codes
                 then Inl (missing_flag_code ''WORD_LIMIT_SOFT'')
               else Inr []) (\<lambda>limit_flags.
     sum_bind (imbalance_flags analysis codes ''BEGINNING_IMBALANCE'' ''beginning'' ''beginning_count'')
       (\<lambda>b_flags.
     sum_bind (imbalance_flags analysis codes ''MIDDLE_IMBALANCE'' ''middle'' ''middle_count'')
       (\<lambda>m_flags.
     sum_bind (imbalance_flags analysis codes ''END_IMBALANCE'' ''end'' ''end_count'')
       (\<lambda>e_flags.
       Inr (limit_flags @ b_flags @ m_flags @ e_flags))))))"

text \<open>
  The two calls as \<open>_validate_and_process_arc\<close> makes them: the flags are created when
  the analysis has a violation.
\<close>

definition word_count_flags ::
    "'a StoryArchitectConfig_scheme \<Rightarrow> StoryArc \<Rightarrow> py_error + ContinuityFlag list" where
  "word_count_flags config story_arc =
     sum_bind (analyze_word_counts config story_arc) (\<lambda>word_analysis.
       if has_violations word_analysis then create_word_limit_flags config word_analysis
       else Inr [])"

text \<open>
  A configuration with the soft limit 10 and the hard limit 12, and a story arc of
  eleven words with three emotional beats.
\<close>

definition short_limits_config :: StoryArchitectConfig where
  "short_limits_config = override_zero_config \<lparr> word_limit_soft := 10, word_limit_hard := 12 \<rparr>"

definition eleven_word_arc :: StoryArc where
  "eleven_word_arc =
     \<lparr> arc_setup = ''a b c d'', arc_escalation = ''e f g h'', arc_resolution = ''i j k'',
       emotional_beats = [''hope'', ''doubt'', ''relief''], continuity_flags = [],
       arc_seed = None \<rparr>"

section \<open>Story architect: the deterministic seed (draft\_story\_arc.py)\<close>

record ConceptBrief =
  title :: string
  logline :: string
  core_conflict :: string
  tone_keywords :: "string list"
  genre_tags :: "string list"

text \<open>
  \<open>_get_or_generate_seed\<close>. Two things come from outside the repository and are
  parameters: \<open>sha256_hex s\<close> stands for \<open>hashlib.sha256(s.encode()).hexdigest()\<close>,
  and \<open>get_or_create_seed\<close> for the call of the CMS adapter that returns the seed value
  of a project or raises; \<open>project\<close> is the optional project id. Every exception
  inside the \<open>try\<close> degrades to no seed.
\<close>

definition get_or_generate_seed ::
    "(string \<Rightarrow> string) \<Rightarrow> (string \<Rightarrow> string \<Rightarrow> py_error + string) \<Rightarrow>
     'a StoryArchitectConfig_scheme \<Rightarrow> ConceptBrief \<Rightarrow> string option \<Rightarrow> string option" where
  "get_or_generate_seed sha256_hex get_or_create_seed config concept_brief project =
     (if \<not> deterministic_seed_enabled config then None
      else
        let concept_hash = take 16 (sha256_hex
              (title concept_brief @ '':'' @ logline concept_brief @ '':'' @
               core_conflict concept_brief))
        in if truthy_str project then
             (case get_or_create_seed (the project) concept_hash of
                Inl e \<Rightarrow> None
              | Inr seed_value \<Rightarrow> Some seed_value)
           else Some (take 16 (sha256_hex (''story-architect:'' @ concept_hash))))"

text \<open>A brief with a title of \<open>n\<close> letters, for the seeds of infinitely many briefs.\<close>

definition brief_titled :: "string \<Rightarrow> ConceptBrief" where
  "brief_titled t = \<lparr> title = t, logline = ''logline'', core_conflict = ''conflict'',
     tone_keywords = [''dark''], genre_tags = [''comedy''] \<rparr>"

section \<open>Story architect: the entry of the draft\_story\_arc tool (draft\_story\_arc.py)\<close>

text \<open>
  The arguments of a tool call are a JSON object. Numbers are integers here; a JSON
  object is the list of its members, each key once.
\<close>

datatype json =
  JNull
  | JBool bool
  | JInt int
  | JStr string
  | JList "json list"
  | JObj "(string \<times> json) list"

fun py_truthy :: "json \<Rightarrow> bool" where
  "py_truthy JNull = False"
| "py_truthy (JBool b) = b"
| "py_truthy (JInt i) = (i \<noteq> 0)"
| "py_truthy (JStr s) = (s \<noteq> [])"
| "py_truthy (JList xs) = (xs \<noteq> [])"
| "py_truthy (JObj kvs) = (kvs \<noteq> [])"

fun py_type_name :: "json \<Rightarrow> string" where
  "py_type_name JNull = ''NoneType''"
| "py_type_name (JBool b) = ''bool''"
| "py_type_name (JInt i) = ''int''"
| "py_type_name (JStr s) = ''str''"
| "py_type_name (JList xs) = ''list''"
| "py_type_name (JObj kvs) = ''dict''"

text \<open>\<open>v.get(key, dflt)\<close>: only a dictionary has the method.\<close>

definition py_get :: "json \<Rightarrow> string \<Rightarrow> json \<Rightarrow> py_error + json" where
  "py_get v key dflt =
     (case v of
        JObj kvs \<Rightarrow> Inr (case map_of kvs key of None \<Rightarrow> dflt | Some x \<Rightarrow> x)
      | _ \<Rightarrow> Inl (AttributeError
                 ([CHR 0x27] @ py_type_name v @ [CHR 0x27] @ '' object has no attribute ''
                  @ [CHR 0x27] @ ''get'' @ [CHR 0x27])))"

record TraceContext =
  trace_id :: "string option"
  trace_request_id :: "string option"
  correlation_id :: "string option"
  parent_span_id :: "string option"

text \<open>
  What lies outside the tool: the request id drawn, the time elapsed, the validation of
  an \<open>Optional[str]\<close> field by pydantic, and the seven steps inside the \<open>try\<close> of
  \<open>execute\<close>, which return the response or raise.
\<close>

record draft_env =
  new_request_id :: string
  elapsed_ms :: rat
  optional_str_field :: "json \<Rightarrow> py_error + string option"
  run_pipeline :: "(string \<times> json) list \<Rightarrow> TraceContext \<Rightarrow> py_error + json"

definition extract_trace_context ::
    "draft_env \<Rightarrow> (string \<times> json) list \<Rightarrow> py_error + TraceContext" where
  "extract_trace_context env input_data =
     (case (case map_of input_data ''creative_guidelines'' of
              None \<Rightarrow> Inr (JObj [])
            | Some guidelines \<Rightarrow>
                if py_truthy guidelines then py_get guidelines ''trace_headers'' (JObj [])
                else Inr (JObj [])) of
        Inl e \<Rightarrow> Inl e
      | Inr trace_headers \<Rightarrow>
     (case py_get trace_headers ''x-trace-id'' JNull of Inl e \<Rightarrow> Inl e | Inr t \<Rightarrow>
     (case py_get trace_headers ''x-request-id'' JNull of Inl e \<Rightarrow> Inl e | Inr r \<Rightarrow>
     (case py_get trace_headers ''x-correlation-id'' JNull of Inl e \<Rightarrow> Inl e | Inr c \<Rightarrow>
     (case optional_str_field env t of Inl e \<Rightarrow> Inl e | Inr t' \<Rightarrow>
     (case optional_str_field env r of Inl e \<Rightarrow> Inl e | Inr r' \<Rightarrow>
     (case optional_str_field env c of Inl e \<Rightarrow> Inl e | Inr c' \<Rightarrow>
        Inr \<lparr> trace_id = t', trace_request_id = r', correlation_id = c',
              parent_span_id = None \<rparr>)))))))"

record error_body =
  error_type :: string
  error_message :: string
  error_request_id :: string
  error_trace_id :: "string option"
  processing_time_ms :: rat

datatype draft_response = SuccessResponse json | ErrorResponse error_body

text \<open>A call either returns a value or lets an exception escape to its caller.\<close>

datatype 'a outcome = Returned 'a | Raised py_error

definition execute_draft :: "draft_env \<Rightarrow> (string \<times> json) list \<Rightarrow> draft_response outcome" where
  "execute_draft env input_data =
     (case extract_trace_context env input_data of
        Inl e \<Rightarrow> Raised e
      | Inr trace_context \<Rightarrow>
          (case run_pipeline env input_data trace_context of
             Inr response \<Rightarrow> Returned (SuccessResponse response)
           | Inl e \<Rightarrow>
               Returned (ErrorResponse
                 \<lparr> error_type = exc_type_name e, error_message = exc_str e,
                   error_request_id = new_request_id env,
                   error_trace_id = trace_id trace_context,
                   processing_time_ms = elapsed_ms env \<rparr>)))"

text \<open>
  A valid concept brief, once with guidelines that are a string and once with
  guidelines whose \<open>trace_headers\<close> are \<open>null\<close>, which the request model admits.
\<close>

definition brief_json :: json where
  "brief_json = JObj [(''title'', JStr ''Detox''), (''logline'', JStr ''An influencer unplugs''),
     (''core_conflict'', JStr ''Fame against silence''),
     (''tone_keywords'', JList [JStr ''comedic'']), (''genre_tags'', JList [JStr ''comedy''])]"

definition string_guidelines_input :: "(string \<times> json) list" where
  "string_guidelines_input =
     [(''concept_brief'', brief_json), (''creative_guidelines'', JStr ''keep it light'')]"

definition null_trace_headers_input :: "(string \<times> json) list" where
  "null_trace_headers_input =
     [(''concept_brief'', brief_json),
      (''creative_guidelines'', JObj [(''target_runtime_seconds'', JInt 30),
                                      (''trace_headers'', JNull)])]"

section \<open>Theorems\<close>

subsection \<open>C10: the effective LLM configuration in override mode\<close>

text \<open>
  C10. When provider, model and api key of the override are all set, the effective
  configuration takes these three from the override and the timeout from the OpenAI
  settings; \<open>max_tokens\<close> and \<open>temperature\<close> come from the override only when it holds a
  non-zero value: an override of \<open>0\<close> (or \<open>0.0\<close>), like an absent one, falls back to the
  OpenAI setting.
\<close>

theorem effective_llm_config_override:
  assumes "override_llm_provider c = Some p"
    and "override_llm_model c = Some m"
    and "override_llm_api_key c = Some k"
  shows "use_llm_override c
    \<and> provider (effective_llm_config c) = p
    \<and> model (effective_llm_config c) = m
    \<and> api_key (effective_llm_config c) = k
    \<and> timeout (effective_llm_config c) = openai_timeout_seconds c
    \<and> max_tokens (effective_llm_config c) =
        (if override_llm_max_tokens c = None \<or> override_llm_max_tokens c = Some 0
         then openai_max_tokens c else the (override_llm_max_tokens c))
    \<and> temperature (effective_llm_config c) =
        (if override_llm_temperature c = None \<or> override_llm_temperature c = Some 0
         then openai_temperature c else the (override_llm_temperature c))"
proof -
  have ov: "use_llm_override c"
    using assms by (simp add: use_llm_override_def)
  have mt: "py_or (override_llm_max_tokens c) (openai_max_tokens c) =
      (if override_llm_max_tokens c = None \<or> override_llm_max_tokens c = Some 0
       then openai_max_tokens c else the (override_llm_max_tokens c))"
    by (cases "override_llm_max_tokens c") auto
  have tp: "py_or (override_llm_temperature c) (openai_temperature c) =
      (if override_llm_temperature c = None \<or> override_llm_temperature c = Some 0
       then openai_temperature c else the (override_llm_temperature c))"
    by (cases "override_llm_temperature c") auto
  show ?thesis
    using ov assms mt tp by (simp add: effective_llm_config_def)
qed

theorem effective_llm_config_override_witness:
  "override_llm_provider override_zero_config = Some ''other''
   \<and> override_llm_model override_zero_config = Some ''other-model''
   \<and> override_llm_api_key override_zero_config = Some ''sk-other''
   \<and> provider (effective_llm_config override_zero_config) = ''other''
   \<and> max_tokens (effective_llm_config override_zero_config) = 2000
   \<and> temperature (effective_llm_config override_zero_config) = 7 / 10
   \<and> timeout (effective_llm_config override_zero_config) = 6"
  using effective_llm_config_override
    [of override_zero_config "''other''" "''other-model''" "''sk-other''"]
  by (simp add: override_zero_config_def)

subsection \<open>C9: tag arrays are cut to three entries before blanks are dropped\<close>

lemma validate_tag_arrays_Inr:
  "v \<noteq> [] \<Longrightarrow>
   validate_tag_arrays v = Inr (map strip (filter (\<lambda>tag. strip tag \<noteq> []) (take 3 v)))"
  by (simp add: validate_tag_arrays_def)

text \<open>
  C9. For a non-empty tag list the validator succeeds with the stripped non-blank
  entries among the first three: the list is cut to three entries first and blanks are
  dropped afterwards. So the result has as many entries as the first three have
  non-blank ones (fewer than three whenever one of them is blank, none when all are
  blank), and whatever stands at position four or later never reaches the result.
\<close>

theorem validate_tag_arrays_truncates_first:
  assumes "v \<noteq> []"
  shows "\<exists>r. validate_tag_arrays v = Inr r
    \<and> r = map strip (filter (\<lambda>tag. strip tag \<noteq> []) (take 3 v))
    \<and> length r + length (filter (\<lambda>tag. strip tag = []) (take 3 v)) = min 3 (length v)
    \<and> (3 \<le> length v \<longrightarrow> (\<forall>later. validate_tag_arrays (take 3 v @ later) = Inr r))
    \<and> (list_all (\<lambda>tag. strip tag = []) (take 3 v) \<longleftrightarrow> r = [])"
proof -
  let ?r = "map strip (filter (\<lambda>tag. strip tag \<noteq> []) (take 3 v))"
  have a: "validate_tag_arrays v = Inr ?r"
    using assms by (rule validate_tag_arrays_Inr)
  have b: "length ?r + length (filter (\<lambda>tag. strip tag = []) (take 3 v)) = min 3 (length v)"
    using sum_length_filter_compl [of "\<lambda>tag. strip tag = []" "take 3 v"]
    by (simp add: min.commute)
  have c: "validate_tag_arrays (take 3 v @ later) = Inr ?r" if "3 \<le> length v" for later
  proof -
    from that have ne: "take 3 v @ later \<noteq> []" by auto
    from that have tk: "take 3 (take 3 v @ later) = take 3 v" by simp
    show ?thesis
      using validate_tag_arrays_Inr [OF ne] by (simp only: tk)
  qed
  have d: "list_all (\<lambda>tag. strip tag = []) (take 3 v) \<longleftrightarrow> ?r = []"
    by (simp add: list_all_iff filter_empty_conv)
  show ?thesis
    using a b c d by blast
qed

theorem validate_tag_arrays_truncates_first_witness:
  "[''  '', '' comedy '', [CHR 0x09], ''drama''] \<noteq> []
   \<and> validate_tag_arrays [''  '', '' comedy '', [CHR 0x09], ''drama''] = Inr [''comedy'']
   \<and> validate_tag_arrays [''  '', '' comedy '', [CHR 0x09], ''thriller'', ''noir'']
       = Inr [''comedy'']
   \<and> validate_tag_arrays [''  '', '' '', [CHR 0x09], ''drama''] = Inr []"
  using validate_tag_arrays_truncates_first [of "[''  '', '' comedy '', [CHR 0x09], ''drama'']"]
    validate_tag_arrays_truncates_first [of "[''  '', '' '', [CHR 0x09], ''drama'']"]
  by (simp add: strip_def is_space_def)

subsection \<open>C6: validation of an assemble\_video request\<close>

lemma limit_segments_Inl:
  "isl (limit_segments v) \<longleftrightarrow>
     (length v = 0 \<or> 3 < length v \<or> 15 < sum_list (map duration_seconds v))"
  by (simp add: limit_segments_def Let_def)

lemma parse_isl:
  "isl (parse_AssembleVideoRequest input) \<longleftrightarrow>
     (\<not> list_all duration_field_ok (video_segments input) \<or> isl (limit_segments (video_segments input)))"
  by (simp add: parse_AssembleVideoRequest_def split: sum.splits)

lemma parse_Inl_ValidationError:
  "parse_AssembleVideoRequest input = Inl e \<Longrightarrow> \<exists>msg. e = ValidationError msg"
  by (auto simp add: parse_AssembleVideoRequest_def split: sum.splits if_splits)

lemma parse_Inr_same:
  "parse_AssembleVideoRequest input = Inr req \<Longrightarrow> req = input"
  by (auto simp add: parse_AssembleVideoRequest_def split: sum.splits if_splits)

text \<open>
  C6. Parsing rejects a request exactly when it has no segment, more than three
  segments, a total duration above 15 seconds, or a segment whose duration is not in
  the interval from 0 (excluded) to 15. For a rejected request \<open>execute\<close> returns the
  envelope of a \<open>ValidationError\<close>, and all it does to the world is to create and to
  remove its working directory: no download, no encoding, no call of the CMS. A request
  that is not rejected is passed on unchanged.
\<close>

theorem assemble_video_validation:
  "(isl (parse_AssembleVideoRequest input) \<longleftrightarrow>
      (length (video_segments input) = 0 \<or> 3 < length (video_segments input)
       \<or> 15 < sum_list (map duration_seconds (video_segments input))
       \<or> (\<exists>s \<in> set (video_segments input). \<not> (0 < duration_seconds s \<and> duration_seconds s \<le> 15))))
   \<and> (isl (parse_AssembleVideoRequest input) \<longrightarrow>
        (\<exists>msg. execute_assemble w input = (ErrorEnvelope ''ValidationError'' msg, [Mkdir, Cleanup])))
   \<and> (\<not> isl (parse_AssembleVideoRequest input) \<longrightarrow> parse_AssembleVideoRequest input = Inr input)"
proof -
  have a: "isl (parse_AssembleVideoRequest input) \<longleftrightarrow>
      (length (video_segments input) = 0 \<or> 3 < length (video_segments input)
       \<or> 15 < sum_list (map duration_seconds (video_segments input))
       \<or> (\<exists>s \<in> set (video_segments input). \<not> (0 < duration_seconds s \<and> duration_seconds s \<le> 15)))"
    unfolding parse_isl limit_segments_Inl
    by (auto simp add: list_all_iff duration_field_ok_def)
  have b: "\<exists>msg. execute_assemble w input = (ErrorEnvelope ''ValidationError'' msg, [Mkdir, Cleanup])"
    if "isl (parse_AssembleVideoRequest input)"
  proof -
    from that obtain e where e: "parse_AssembleVideoRequest input = Inl e"
      by (cases "parse_AssembleVideoRequest input") auto
    then obtain msg where "e = ValidationError msg"
      using parse_Inl_ValidationError by blast
    with e show ?thesis
      by (simp add: execute_assemble_def error_envelope_def)
  qed
  have c: "parse_AssembleVideoRequest input = Inr input" if "\<not> isl (parse_AssembleVideoRequest input)"
    using that parse_Inr_same [of input] by (cases "parse_AssembleVideoRequest input") auto
  show ?thesis using a b c by blast
qed

theorem assemble_video_validation_witness:
  "isl (parse_AssembleVideoRequest (request_of [seg ''a'' 10, seg ''b'' 8]))
   \<and> fst (execute_assemble mock_world (request_of [seg ''a'' 10, seg ''b'' 8]))
       = ErrorEnvelope ''ValidationError'' ''Total duration must be <= 15 seconds for MVP''
   \<and> snd (execute_assemble mock_world (request_of [seg ''a'' 10, seg ''b'' 8])) = [Mkdir, Cleanup]
   \<and> isl (parse_AssembleVideoRequest (request_of [seg ''a'' 1, seg ''b'' 1, seg ''c'' 1, seg ''d'' 1]))
   \<and> isl (parse_AssembleVideoRequest (request_of []))
   \<and> parse_AssembleVideoRequest (request_of [seg ''a'' 3, seg ''b'' 4]) = Inr (request_of [seg ''a'' 3, seg ''b'' 4])"
  using assemble_video_validation [of "request_of [seg ''a'' 10, seg ''b'' 8]" mock_world]
    assemble_video_validation [of "request_of [seg ''a'' 1, seg ''b'' 1, seg ''c'' 1, seg ''d'' 1]" mock_world]
    assemble_video_validation [of "request_of []" mock_world]
    assemble_video_validation [of "request_of [seg ''a'' 3, seg ''b'' 4]" mock_world]
  by (simp add: request_of_def seg_def execute_assemble_def parse_AssembleVideoRequest_def
      limit_segments_def duration_field_ok_def error_envelope_def)

subsection \<open>C7: the edit timeline\<close>

lemma timeline_cursor:
  "snd (foldl (timeline_step tr) st segs) = snd st + sum_list (map duration_seconds segs)"
  by (induction segs arbitrary: st) (simp_all add: timeline_step_def Let_def)

lemma build_timeline_snoc:
  "build_timeline settings (segs @ [s]) =
     build_timeline settings segs @
       [\<lparr> ev_segment_id = segment_id s,
          start_time = py_round (sum_list (map duration_seconds segs)) 3,
          end_time = py_round (sum_list (map duration_seconds segs) + duration_seconds s) 3,
          transition_out = transition settings \<rparr>]"
  by (simp add: build_timeline_def timeline_step_def Let_def timeline_cursor)

lemma build_timeline_length: "length (build_timeline settings segs) = length segs"
  by (induction segs rule: rev_induct) (simp_all add: build_timeline_snoc, simp add: build_timeline_def)

lemma build_timeline_nth:
  "i < length segs \<Longrightarrow>
   build_timeline settings segs ! i =
     \<lparr> ev_segment_id = segment_id (segs ! i),
       start_time = py_round (sum_list (map duration_seconds (take i segs))) 3,
       end_time = py_round (sum_list (map duration_seconds (take i segs)) + duration_seconds (segs ! i)) 3,
       transition_out = transition settings \<rparr>"
proof (induction segs rule: rev_induct)
  case Nil
  then show ?case by simp
next
  case (snoc s segs)
  show ?case
  proof (cases "i < length segs")
    case True
    then show ?thesis
      using snoc.IH by (simp add: build_timeline_snoc nth_append build_timeline_length)
  next
    case False
    with snoc.prems have "i = length segs" by simp
    then show ?thesis
      by (simp add: build_timeline_snoc nth_append build_timeline_length)
  qed
qed


lemma execute_assemble_timeline:
  "execute_assemble w input = (FinalEditResponse fe, evs) \<Longrightarrow>
   edit_timeline fe = build_timeline (settings_of input) (video_segments input)"
  by (auto simp add: execute_assemble_def error_envelope_def Let_def
      split: sum.splits prod.splits option.splits dest: parse_Inr_same)

text \<open>
  C7. The timeline has one event per segment, in request order. The event of segment
  \<open>i\<close> starts at the sum of the durations before it and ends one duration later, both
  rounded to three decimal places (the cursor itself is not rounded), and it carries
  the transition of the settings. The settings are those of the request, or the
  defaults with \<open>hard_cut\<close> when the request has none; the timeline of a successful
  response is this one.
\<close>

theorem timeline_back_to_back:
  "length (build_timeline settings segs) = length segs
   \<and> (\<forall>i < length segs.
        build_timeline settings segs ! i =
          \<lparr> ev_segment_id = segment_id (segs ! i),
            start_time = py_round (sum_list (map duration_seconds (take i segs))) 3,
            end_time = py_round (sum_list (map duration_seconds (take i segs))
                                 + duration_seconds (segs ! i)) 3,
            transition_out = transition settings \<rparr>)
   \<and> (execute_assemble w input = (FinalEditResponse fe, evs) \<longrightarrow>
        edit_timeline fe = build_timeline (settings_of input) (video_segments input))
   \<and> (assembly_settings input = None \<longrightarrow> transition (settings_of input) = hard_cut)
   \<and> (\<forall>s. assembly_settings input = Some s \<longrightarrow> settings_of input = s)"
proof -
  have "assembly_settings input = None \<longrightarrow> transition (settings_of input) = hard_cut"
    by (simp add: settings_of_def default_AssemblySettings_def)
  moreover have "\<forall>s. assembly_settings input = Some s \<longrightarrow> settings_of input = s"
    by (simp add: settings_of_def)
  ultimately show ?thesis
    using build_timeline_length build_timeline_nth execute_assemble_timeline by blast
qed

theorem timeline_back_to_back_witness:
  "build_timeline default_AssemblySettings [seg ''a'' 3, seg ''b'' 4] =
     [\<lparr> ev_segment_id = ''a'', start_time = 0, end_time = 3, transition_out = hard_cut \<rparr>,
      \<lparr> ev_segment_id = ''b'', start_time = 3, end_time = 7, transition_out = hard_cut \<rparr>]
   \<and> (\<exists>fe evs. execute_assemble mock_world (request_of [seg ''a'' 3, seg ''b'' 4])
                  = (FinalEditResponse fe, evs)
        \<and> edit_timeline fe = build_timeline default_AssemblySettings [seg ''a'' 3, seg ''b'' 4])"
proof -
  let ?segs = "[seg ''a'' 3, seg ''b'' 4]"
  let ?input = "request_of ?segs"
  obtain fe evs where ex: "execute_assemble mock_world ?input = (FinalEditResponse fe, evs)"
    by (simp add: execute_assemble_def parse_AssembleVideoRequest_def limit_segments_def
        duration_field_ok_def request_of_def seg_def mock_world_def Let_def)
  have st: "settings_of ?input = default_AssemblySettings"
    by (simp add: settings_of_def request_of_def)
  have vs: "video_segments ?input = ?segs"
    by (simp add: request_of_def)
  note t = timeline_back_to_back [of default_AssemblySettings ?segs mock_world ?input fe evs]
  have len: "length (build_timeline default_AssemblySettings ?segs) = 2"
    using t by simp
  have e0: "build_timeline default_AssemblySettings ?segs ! 0 =
      \<lparr> ev_segment_id = ''a'', start_time = 0, end_time = 3, transition_out = hard_cut \<rparr>"
    using t by (simp add: seg_def py_round_def round_half_even_def default_AssemblySettings_def)
  have e1: "build_timeline default_AssemblySettings ?segs ! 1 =
      \<lparr> ev_segment_id = ''b'', start_time = 3, end_time = 7, transition_out = hard_cut \<rparr>"
    using t by (simp add: seg_def py_round_def round_half_even_def default_AssemblySettings_def)
  have "build_timeline default_AssemblySettings ?segs =
     [\<lparr> ev_segment_id = ''a'', start_time = 0, end_time = 3, transition_out = hard_cut \<rparr>,
      \<lparr> ev_segment_id = ''b'', start_time = 3, end_time = 7, transition_out = hard_cut \<rparr>]"
  proof (rule nth_equalityI)
    show "length (build_timeline default_AssemblySettings ?segs) =
        length [\<lparr> ev_segment_id = ''a'', start_time = 0, end_time = 3, transition_out = hard_cut \<rparr>,
          \<lparr> ev_segment_id = ''b'', start_time = 3, end_time = 7, transition_out = hard_cut \<rparr>]"
      using len by simp
  next
    fix i
    assume "i < length (build_timeline default_AssemblySettings ?segs)"
    then have "i = 0 \<or> i = 1" using len by auto
    then show "build_timeline default_AssemblySettings ?segs ! i =
        [\<lparr> ev_segment_id = ''a'', start_time = 0, end_time = 3, transition_out = hard_cut \<rparr>,
          \<lparr> ev_segment_id = ''b'', start_time = 3, end_time = 7, transition_out = hard_cut \<rparr>] ! i"
      using e0 e1 by auto
  qed
  moreover have "edit_timeline fe = build_timeline default_AssemblySettings ?segs"
    using t ex st vs by simp
  ultimately show ?thesis using ex by blast
qed

subsection \<open>C4: grouping frames into segments\<close>

lemma group_loop_pairs:
  "flush_remaining (foldl (group_step 2) (cs, [], sc) fs) = cs @ pair_chunks fs"
  "flush_remaining (foldl (group_step 2) (cs, [a], Some (scene_number a)) fs) = cs @ pair_chunks (a # fs)"
proof (induction fs arbitrary: cs sc a)
  case Nil
  { case 1 show ?case by (simp add: flush_remaining_def) }
  { case 2 show ?case by (simp add: flush_remaining_def) }
next
  case (Cons f fs)
  { case 1
    have "group_step 2 (cs, [], sc) f = (cs, [f], Some (scene_number f))"
      by (simp add: group_step_def Let_def)
    then show ?case using Cons.IH(2) by simp }
  { case 2
    show ?case
    proof (cases "scene_number a = scene_number f")
      case True
      then have "group_step 2 (cs, [a], Some (scene_number a)) f = (cs @ [[a, f]], [], Some (scene_number a))"
        by (simp add: group_step_def Let_def)
      then show ?thesis using True Cons.IH(1) by simp
    next
      case False
      then have "group_step 2 (cs, [a], Some (scene_number a)) f = (cs @ [[a]], [f], Some (scene_number f))"
        by (simp add: group_step_def Let_def)
      then show ?thesis using False Cons.IH(2) by simp
    qed }
qed


lemma pair_chunks_concat: "concat (pair_chunks fs) = fs"
  by (induction fs rule: pair_chunks.induct) simp_all

lemma pair_chunks_member:
  "c \<in> set (pair_chunks fs) \<Longrightarrow>
   c \<noteq> [] \<and> length c \<le> 2 \<and> (\<forall>f \<in> set c. \<forall>g \<in> set c. scene_number f = scene_number g)"
proof (induction fs rule: pair_chunks.induct)
  case 1
  then show ?case by simp
next
  case (2 a)
  then show ?case by simp
next
  case (3 a b fs)
  show ?case
  proof (cases "scene_number a = scene_number b")
    case True
    with "3.prems" have "c = [a, b] \<or> c \<in> set (pair_chunks fs)" by simp
    then show ?thesis
    proof
      assume "c = [a, b]"
      then show ?thesis using True by simp
    next
      assume "c \<in> set (pair_chunks fs)"
      then show ?thesis using "3.IH"(1) [OF True] by blast
    qed
  next
    case False
    with "3.prems" have "c = [a] \<or> c \<in> set (pair_chunks (b # fs))" by simp
    then show ?thesis
    proof
      assume "c = [a]"
      then show ?thesis by simp
    next
      assume "c \<in> set (pair_chunks (b # fs))"
      then show ?thesis using "3.IH"(2) [OF False] by blast
    qed
  qed
qed

lemma pair_chunks_hd: "hd (hd (pair_chunks (b # fs))) = b"
  by (cases fs) simp_all

lemma pair_chunks_nonempty: "pair_chunks (b # fs) \<noteq> []"
  by (cases fs) simp_all

lemma pair_chunks_breaks:
  "Suc i < length (pair_chunks fs) \<Longrightarrow>
   length (pair_chunks fs ! i) = 2
   \<or> scene_number (last (pair_chunks fs ! i)) \<noteq> scene_number (hd (pair_chunks fs ! Suc i))"
proof (induction fs arbitrary: i rule: pair_chunks.induct)
  case 1
  then show ?case by simp
next
  case (2 a)
  then show ?case by simp
next
  case (3 a b fs)
  show ?case
  proof (cases "scene_number a = scene_number b")
    case True
    then have eq: "pair_chunks (a # b # fs) = [a, b] # pair_chunks fs" by simp
    show ?thesis
    proof (cases i)
      case 0
      show ?thesis unfolding eq 0 by simp
    next
      case (Suc j)
      from "3.prems" have "Suc j < length (pair_chunks fs)"
        unfolding eq Suc by simp
      from "3.IH"(1) [OF True this] show ?thesis
        unfolding eq Suc by simp
    qed
  next
    case False
    then have eq: "pair_chunks (a # b # fs) = [a] # pair_chunks (b # fs)" by simp
    show ?thesis
    proof (cases i)
      case 0
      have "pair_chunks (b # fs) ! 0 = hd (pair_chunks (b # fs))"
        using pair_chunks_nonempty [of b fs] by (simp add: hd_conv_nth del: pair_chunks.simps)
      then have "hd (pair_chunks (b # fs) ! 0) = b"
        by (simp only: pair_chunks_hd)
      then show ?thesis unfolding eq 0 using False by (simp del: pair_chunks.simps)
    next
      case (Suc j)
      from "3.prems" have "Suc j < length (pair_chunks (b # fs))"
        unfolding eq Suc by (simp del: pair_chunks.simps)
      from "3.IH"(2) [OF False this] show ?thesis
        unfolding eq Suc by (simp del: pair_chunks.simps)
    qed
  qed
qed

lemma pair_chunks_take2: "map (take 2) (take n (pair_chunks fs)) = take n (pair_chunks fs)"
proof (rule map_idI)
  fix c assume "c \<in> set (take n (pair_chunks fs))"
  then have "c \<in> set (pair_chunks fs)" by (rule in_set_takeD)
  then show "take 2 c = c" using pair_chunks_member [of c fs] by simp
qed

lemma group_frames_pairs:
  "group_frames_into_segments frames 2 dps mtr =
     take (max_segments_of dps mtr) (pair_chunks (sort_key (\<lambda>f. (scene_number f, shot_order f)) frames))"
proof (cases "frames = []")
  case True
  then show ?thesis by (simp add: group_frames_into_segments_def)
next
  case False
  then show ?thesis
    using group_loop_pairs(1) [of "[]" None]
    by (simp add: group_frames_into_segments_def Let_def max_segments_of_def pair_chunks_take2)
qed


lemma five_max: "max_segments_of 3 12 = 3"
  by (simp add: max_segments_of_def)

lemma pair_chunks_shape: "\<forall>c \<in> set (pair_chunks fs). 1 \<le> length c \<and> length c \<le> 2
           \<and> (\<forall>f \<in> set c. \<forall>g \<in> set c. scene_number f = scene_number g)"
proof
  fix c assume "c \<in> set (pair_chunks fs)"
  from pair_chunks_member [OF this]
  have "c \<noteq> []" and l: "length c \<le> 2"
    and s: "\<forall>f \<in> set c. \<forall>g \<in> set c. scene_number f = scene_number g"
    by blast+
  from \<open>c \<noteq> []\<close> have "1 \<le> length c" by (cases c) simp_all
  with l s show "1 \<le> length c \<and> length c \<le> 2
           \<and> (\<forall>f \<in> set c. \<forall>g \<in> set c. scene_number f = scene_number g)"
    by (intro conjI)
qed


lemma group_frames_take: "group_frames_into_segments frames 2 duration runtime =
         take (nat (max 1 (min 3 \<lfloor>runtime /
                 (if duration \<le> 0 then 3 else duration)\<rfloor>)))
           (pair_chunks (sort_key (\<lambda>f. (scene_number f, shot_order f)) frames))"
    using group_frames_pairs [of frames duration runtime]
    by (simp only: max_segments_of_def)


text \<open>
  C4. With chunk size 2 the result is a prefix of a list \<open>C\<close> of chunks with these
  properties: the chunks, put end to end, are the frames sorted by
  \<open>(scene_number, shot_order)\<close>, ascending (frames of equal key in input order); every chunk has
  one or two frames, all of one scene; a chunk is followed by another only when it is
  full or the next frame belongs to another scene. The prefix has
  \<open>max 1 (min 3 (floor (max_total_runtime / duration_per_segment)))\<close> chunks (all of
  \<open>C\<close> when it has fewer), a non-positive duration counting as 3.
\<close>

theorem group_frames_into_segments_chunks:
  "\<exists>C. concat C = sort_key (\<lambda>f. (scene_number f, shot_order f)) frames
     \<and> sorted (map (\<lambda>f. (scene_number f, shot_order f)) (concat C))
     \<and> set (concat C) = set frames \<and> length (concat C) = length frames
     \<and> (\<forall>c \<in> set C. 1 \<le> length c \<and> length c \<le> 2
           \<and> (\<forall>f \<in> set c. \<forall>g \<in> set c. scene_number f = scene_number g))
     \<and> (\<forall>i. Suc i < length C \<longrightarrow>
           length (C ! i) = 2 \<or> scene_number (last (C ! i)) \<noteq> scene_number (hd (C ! Suc i)))
     \<and> group_frames_into_segments frames 2 duration runtime =
         take (nat (max 1 (min 3 \<lfloor>runtime /
                 (if duration \<le> 0 then 3 else duration)\<rfloor>))) C"
proof (intro exI conjI)
  show "concat (pair_chunks (sort_key (\<lambda>f. (scene_number f, shot_order f)) frames))
      = sort_key (\<lambda>f. (scene_number f, shot_order f)) frames"
    by (rule pair_chunks_concat)
  show "sorted (map (\<lambda>f. (scene_number f, shot_order f))
      (concat (pair_chunks (sort_key (\<lambda>f. (scene_number f, shot_order f)) frames))))"
    by (simp only: pair_chunks_concat sorted_sort_key)
  show "set (concat (pair_chunks (sort_key (\<lambda>f. (scene_number f, shot_order f)) frames)))
      = set frames"
    by (simp only: pair_chunks_concat set_sort)
  show "length (concat (pair_chunks (sort_key (\<lambda>f. (scene_number f, shot_order f)) frames)))
      = length frames"
    by (simp only: pair_chunks_concat length_sort)
  show "\<forall>c \<in> set (pair_chunks (sort_key (\<lambda>f. (scene_number f, shot_order f)) frames)).
      1 \<le> length c \<and> length c \<le> 2
      \<and> (\<forall>f \<in> set c. \<forall>g \<in> set c. scene_number f = scene_number g)"
    by (rule pair_chunks_shape)
  show "\<forall>i. Suc i < length (pair_chunks (sort_key (\<lambda>f. (scene_number f, shot_order f)) frames)) \<longrightarrow>
      length (pair_chunks (sort_key (\<lambda>f. (scene_number f, shot_order f)) frames) ! i) = 2
      \<or> scene_number (last (pair_chunks (sort_key (\<lambda>f. (scene_number f, shot_order f)) frames) ! i))
          \<noteq> scene_number (hd (pair_chunks (sort_key (\<lambda>f. (scene_number f, shot_order f)) frames) ! Suc i))"
    by (intro allI impI) (rule pair_chunks_breaks)
  show "group_frames_into_segments frames 2 duration runtime =
      take (nat (max 1 (min 3 \<lfloor>runtime /
                 (if duration \<le> 0 then 3 else duration)\<rfloor>)))
        (pair_chunks (sort_key (\<lambda>f. (scene_number f, shot_order f)) frames))"
    by (rule group_frames_take)
qed


lemma five_sorted: "sort_key (\<lambda>f. (scene_number f, shot_order f)) five_frames =
  [gf ''SCENE_1_SHOT_1'' 1 1, gf ''SCENE_1_SHOT_2'' 1 2,
   gf ''SCENE_2_SHOT_1'' 2 1, gf ''SCENE_2_SHOT_2'' 2 2, gf ''SCENE_3_SHOT_1'' 3 1]"
  by code_simp

theorem group_frames_into_segments_chunks_witness:
  "group_frames_into_segments five_frames 2 3 12 =
     [[gf ''SCENE_1_SHOT_1'' 1 1, gf ''SCENE_1_SHOT_2'' 1 2],
      [gf ''SCENE_2_SHOT_1'' 2 1, gf ''SCENE_2_SHOT_2'' 2 2],
      [gf ''SCENE_3_SHOT_1'' 3 1]]
   \<and> (\<exists>C. concat C = sort_key (\<lambda>f. (scene_number f, shot_order f)) five_frames
         \<and> group_frames_into_segments five_frames 2 3 12 = take 3 C)"
proof (rule conjI)
  show "group_frames_into_segments five_frames 2 3 12 =
     [[gf ''SCENE_1_SHOT_1'' 1 1, gf ''SCENE_1_SHOT_2'' 1 2],
      [gf ''SCENE_2_SHOT_1'' 2 1, gf ''SCENE_2_SHOT_2'' 2 2],
      [gf ''SCENE_3_SHOT_1'' 3 1]]"
    unfolding group_frames_pairs five_sorted five_max
    by (simp add: gf_def)
next
  have n: "nat (max 1 (min 3 \<lfloor>(12::rat) / (if (3::rat) \<le> 0 then 3 else 3)\<rfloor>)) = 3"
    by simp
  from group_frames_into_segments_chunks [of five_frames 3 12]
  obtain C where 1: "concat C = sort_key (\<lambda>f. (scene_number f, shot_order f)) five_frames"
    and 2: "group_frames_into_segments five_frames 2 3 12 = take 3 C"
    unfolding n by blast
  show "\<exists>C. concat C = sort_key (\<lambda>f. (scene_number f, shot_order f)) five_frames
         \<and> group_frames_into_segments five_frames 2 3 12 = take 3 C"
    by (rule exI [of _ C]) (intro conjI 1 2)
qed

subsection \<open>C5: the first provider failure ends the batch\<close>

lemma synth_loop_fail_fast:
  assumes "k < length specs"
    and "\<forall>j < k. \<exists>c r. segment_call payload (specs ! j) = Inr c \<and> P (length attempted + j) c = Inr r"
    and "segment_call payload (specs ! k) = Inr c"
    and "P (length attempted + k) c = Inl e"
  shows "\<exists>vs'. synth_loop P payload specs (vs, fs, attempted) =
            Inr (vs @ vs', fs @ [failed_segment_of (specs ! k) e],
                 attempted @ map spec_segment_id (take (Suc k) specs))
          \<and> length vs' = k
          \<and> (\<forall>j < k. \<exists>c r. segment_call payload (specs ! j) = Inr c
                \<and> P (length attempted + j) c = Inr r
                \<and> vs' ! j = video_segment_of payload (specs ! j) r)"
  using assms
proof (induction specs arbitrary: k vs attempted)
  case Nil
  then show ?case by simp
next
  case (Cons spec specs)
  show ?case
  proof (cases k)
    case 0
    with Cons.prems(3,4) have "synth_loop P payload (spec # specs) (vs, fs, attempted) =
        Inr (vs, fs @ [failed_segment_of spec e], attempted @ [spec_segment_id spec])"
      by simp
    with 0 show ?thesis by simp
  next
    case (Suc k')
    from Cons.prems(2) Suc obtain c0 r0 where
      c0: "segment_call payload spec = Inr c0" and r0: "P (length attempted) c0 = Inr r0"
      by fastforce
    let ?vs = "vs @ [video_segment_of payload spec r0]"
    let ?att = "attempted @ [spec_segment_id spec]"
    have step: "synth_loop P payload (spec # specs) (vs, fs, attempted) =
        synth_loop P payload specs (?vs, fs, ?att)"
      using c0 r0 by simp
    have k': "k' < length specs" using Cons.prems(1) Suc by simp
    have prev: "\<forall>j < k'. \<exists>c r. segment_call payload (specs ! j) = Inr c \<and> P (length ?att + j) c = Inr r"
    proof (intro allI impI)
      fix j assume "j < k'"
      then have "Suc j < k" using Suc by simp
      with Cons.prems(2) show "\<exists>c r. segment_call payload (specs ! j) = Inr c \<and> P (length ?att + j) c = Inr r"
        by fastforce
    qed
    have ck: "segment_call payload (specs ! k') = Inr c" using Cons.prems(3) Suc by simp
    have pk: "P (length ?att + k') c = Inl e" using Cons.prems(4) Suc by simp
    from Cons.IH [OF k' prev ck pk, of ?vs]
    obtain vs' where
      res: "synth_loop P payload specs (?vs, fs, ?att) =
          Inr (?vs @ vs', fs @ [failed_segment_of (specs ! k') e],
               ?att @ map spec_segment_id (take (Suc k') specs))"
      and len: "length vs' = k'"
      and each: "\<forall>j < k'. \<exists>c r. segment_call payload (specs ! j) = Inr c
                \<and> P (length ?att + j) c = Inr r
                \<and> vs' ! j = video_segment_of payload (specs ! j) r"
      by blast
    let ?vs' = "video_segment_of payload spec r0 # vs'"
    have 1: "synth_loop P payload (spec # specs) (vs, fs, attempted) =
            Inr (vs @ ?vs', fs @ [failed_segment_of ((spec # specs) ! k) e],
                 attempted @ map spec_segment_id (take (Suc k) (spec # specs)))"
      using step res Suc by simp
    have 2: "length ?vs' = k" using len Suc by simp
    have 3: "\<forall>j < k. \<exists>c r. segment_call payload ((spec # specs) ! j) = Inr c
                \<and> P (length attempted + j) c = Inr r
                \<and> ?vs' ! j = video_segment_of payload ((spec # specs) ! j) r"
    proof (intro allI impI)
      fix j assume jk: "j < k"
      show "\<exists>c r. segment_call payload ((spec # specs) ! j) = Inr c
                \<and> P (length attempted + j) c = Inr r
                \<and> ?vs' ! j = video_segment_of payload ((spec # specs) ! j) r"
      proof (cases j)
        case 0
        then show ?thesis using c0 r0 by simp
      next
        case (Suc j')
        with jk \<open>k = Suc k'\<close> have "j' < k'" by simp
        with each obtain c' r' where "segment_call payload (specs ! j') = Inr c'"
          and "P (length ?att + j') c' = Inr r'"
          and "vs' ! j' = video_segment_of payload (specs ! j') r'"
          by blast
        then show ?thesis using Suc by simp
      qed
    qed
    show ?thesis
      by (rule exI [of _ ?vs']) (intro conjI 1 2 3)
  qed
qed


lemma to_segment_specs_frames:
  assumes "spec \<in> set (to_segment_specs chunks)"
  shows "\<exists>seg \<in> set chunks. frame_ids spec = map frame_id seg"
proof -
  from assms obtain p where p: "p \<in> set (enumerate 1 chunks)"
    and spec: "spec = (\<lambda>(i, seg). \<lparr> spec_segment_id = ''SEGMENT_'' @ str_nat i,
                                     frame_ids = map frame_id seg \<rparr>) p"
    unfolding to_segment_specs_def by auto
  from p have "fst p - 1 < length chunks" and "chunks ! (fst p - 1) = snd p"
    by (auto simp add: in_set_enumerate_eq)
  then have "snd p \<in> set chunks"
    using nth_mem [of "fst p - 1" chunks] by simp
  moreover from spec have "frame_ids spec = map frame_id (snd p)"
    by (cases p) simp
  ultimately show ?thesis by blast
qed

text \<open>
  No spec that the grouping produces has an empty list of frame ids, so the lookups
  before the \<open>try\<close> never raise.
\<close>

lemma segment_call_total:
  assumes "spec \<in> set (segment_specs payload)"
  shows "\<exists>c. segment_call payload spec = Inr c"
proof -
  from assms obtain seg where
    seg: "seg \<in> set (group_frames_into_segments (generated_frames payload) 2 (duration_of payload) 12)"
    and ids: "frame_ids spec = map frame_id seg"
    unfolding segment_specs_def using to_segment_specs_frames by blast
  from seg have "seg \<in> set (pair_chunks (sort_key (\<lambda>f. (scene_number f, shot_order f))
      (generated_frames payload)))"
    unfolding group_frames_pairs by (rule in_set_takeD)
  then have "seg \<noteq> []" using pair_chunks_member by blast
  with ids obtain fid0 others where "frame_ids spec = fid0 # others"
    by (cases seg) auto
  then show ?thesis
    by (simp add: segment_call_def Let_def)
qed

text \<open>
  C5. Let the provider answer the calls for the first \<open>k\<close> specs with a result and
  raise \<open>e\<close> on the call for spec \<open>k\<close>. Then the response has exactly one failed
  segment: the id of spec \<open>k\<close>, the code \<open>provider_error\<close> and the message of \<open>e\<close>;
  its video segments are those of the first \<open>k\<close> specs, in order, each built from the
  provider's result; and the provider was called for the specs up to \<open>k\<close> and for no
  later one.
\<close>

theorem synthesize_fail_fast:
  assumes "k < length (segment_specs payload)"
    and "\<forall>j < k. \<exists>c r. segment_call payload (segment_specs payload ! j) = Inr c \<and> P j c = Inr r"
    and "segment_call payload (segment_specs payload ! k) = Inr c"
    and "P k c = Inl e"
  shows "\<exists>vs. handle_synthesize P payload =
            Inr (\<lparr> resp_video_segments = vs,
                   failed_segments =
                     [\<lparr> failed_segment_id = spec_segment_id (segment_specs payload ! k),
                        error = ''provider_error'', message = exc_str e \<rparr>] \<rparr>,
                 map spec_segment_id (take (Suc k) (segment_specs payload)))
          \<and> length vs = k
          \<and> (\<forall>j < k. \<exists>c r. segment_call payload (segment_specs payload ! j) = Inr c
                \<and> P j c = Inr r
                \<and> vs ! j = video_segment_of payload (segment_specs payload ! j) r)"
proof -
  let ?specs = "segment_specs payload"
  have h2: "\<forall>j < k. \<exists>c r. segment_call payload (?specs ! j) = Inr c \<and> P (length ([]::string list) + j) c = Inr r"
    using assms(2) by simp
  have h4: "P (length ([]::string list) + k) c = Inl e"
    using assms(4) by simp
  have "\<exists>vs'. synth_loop P payload ?specs ([], [], []) =
            Inr ([] @ vs', [] @ [failed_segment_of (?specs ! k) e],
                 [] @ map spec_segment_id (take (Suc k) ?specs))
          \<and> length vs' = k
          \<and> (\<forall>j < k. \<exists>c r. segment_call payload (?specs ! j) = Inr c
                \<and> P (length ([]::string list) + j) c = Inr r
                \<and> vs' ! j = video_segment_of payload (?specs ! j) r)"
    by (rule synth_loop_fail_fast [OF assms(1) h2 assms(3) h4])
  then obtain vs where
    res: "synth_loop P payload ?specs ([], [], []) =
        Inr (vs, [failed_segment_of (?specs ! k) e], map spec_segment_id (take (Suc k) ?specs))"
    and len: "length vs = k"
    and each: "\<forall>j < k. \<exists>c r. segment_call payload (?specs ! j) = Inr c
                \<and> P j c = Inr r
                \<and> vs ! j = video_segment_of payload (?specs ! j) r"
    by (elim exE conjE) simp
  from res have hs: "handle_synthesize P payload =
            Inr (\<lparr> resp_video_segments = vs,
                   failed_segments =
                     [\<lparr> failed_segment_id = spec_segment_id (?specs ! k),
                        error = ''provider_error'', message = exc_str e \<rparr>] \<rparr>,
                 map spec_segment_id (take (Suc k) ?specs))"
    by (simp add: handle_synthesize_def failed_segment_of_def)
  show ?thesis
    by (rule exI [of _ vs]) (intro conjI hs len each)
qed


lemma five_frames_grouped:
  "group_frames_into_segments five_frames 2 3 12 =
     [[gf ''SCENE_1_SHOT_1'' 1 1, gf ''SCENE_1_SHOT_2'' 1 2],
      [gf ''SCENE_2_SHOT_1'' 2 1, gf ''SCENE_2_SHOT_2'' 2 2],
      [gf ''SCENE_3_SHOT_1'' 3 1]]"
  unfolding group_frames_pairs five_sorted five_max
  by (simp add: gf_def)

lemma five_specs:
  "segment_specs five_payload =
     [\<lparr> spec_segment_id = ''SEGMENT_1'', frame_ids = [''SCENE_1_SHOT_1'', ''SCENE_1_SHOT_2''] \<rparr>,
      \<lparr> spec_segment_id = ''SEGMENT_2'', frame_ids = [''SCENE_2_SHOT_1'', ''SCENE_2_SHOT_2''] \<rparr>,
      \<lparr> spec_segment_id = ''SEGMENT_3'', frame_ids = [''SCENE_3_SHOT_1''] \<rparr>]"
proof -
  have "segment_specs five_payload = to_segment_specs (group_frames_into_segments five_frames 2 3 12)"
    by (simp add: segment_specs_def five_payload_def duration_of_def)
  also have "\<dots> = [\<lparr> spec_segment_id = ''SEGMENT_1'', frame_ids = [''SCENE_1_SHOT_1'', ''SCENE_1_SHOT_2''] \<rparr>,
      \<lparr> spec_segment_id = ''SEGMENT_2'', frame_ids = [''SCENE_2_SHOT_1'', ''SCENE_2_SHOT_2''] \<rparr>,
      \<lparr> spec_segment_id = ''SEGMENT_3'', frame_ids = [''SCENE_3_SHOT_1''] \<rparr>]"
    unfolding five_frames_grouped
    by (simp add: to_segment_specs_def enumerate_eq_zip upt_rec [of 1] upt_rec [of 2] upt_rec [of 3]
        upt_rec [of 4] str_nat.simps digit_char_def gf_def)
  finally show ?thesis .
qed

theorem synthesize_fail_fast_witness:
  "length (segment_specs five_payload) = 3
   \<and> handle_synthesize failing_first five_payload =
       Inr (\<lparr> resp_video_segments = [],
              failed_segments = [\<lparr> failed_segment_id = ''SEGMENT_1'', error = ''provider_error'',
                                   message = ''quota exceeded'' \<rparr>] \<rparr>,
            [''SEGMENT_1''])"
proof -
  have l: "0 < length (segment_specs five_payload)"
    by (simp add: five_specs)
  then have "segment_specs five_payload ! 0 \<in> set (segment_specs five_payload)"
    by (rule nth_mem)
  then obtain c where c: "segment_call five_payload (segment_specs five_payload ! 0) = Inr c"
    using segment_call_total by blast
  have p: "\<forall>j < (0::nat). \<exists>c r. segment_call five_payload (segment_specs five_payload ! j) = Inr c
      \<and> failing_first j c = Inr r"
    by simp
  have f: "failing_first 0 c = Inl (OtherError ''RuntimeError'' ''quota exceeded'')"
    by (simp add: failing_first_def)
  from synthesize_fail_fast [OF l p c f]
  obtain vs where "handle_synthesize failing_first five_payload =
            Inr (\<lparr> resp_video_segments = vs,
                   failed_segments =
                     [\<lparr> failed_segment_id = spec_segment_id (segment_specs five_payload ! 0),
                        error = ''provider_error'',
                        message = exc_str (OtherError ''RuntimeError'' ''quota exceeded'') \<rparr>] \<rparr>,
                 map spec_segment_id (take (Suc 0) (segment_specs five_payload)))"
    and "length vs = 0"
    by (elim exE conjE)
  then show ?thesis
    by (simp add: five_specs)
qed

subsection \<open>C2: selection of a prompt template\<close>

lemma find_cases:
  "find P xs = (if \<exists>x \<in> set xs. P x then find P xs else None)"
  by (simp add: find_None_iff)

lemma find_Some_ex: "(\<exists>x \<in> set xs. P x) \<Longrightarrow> \<exists>y. find P xs = Some y"
  by (cases "find P xs") (auto simp add: find_None_iff)

lemma select_exact:
  assumes "\<exists>t \<in> set ts. genre_match c t \<and> tone_match c t"
  shows "select_best_template ts c = find (\<lambda>t. genre_match c t \<and> tone_match c t) ts"
proof -
  from find_Some_ex [of ts "\<lambda>t. genre_match c t \<and> tone_match c t"] assms
  obtain y where "find (\<lambda>t. genre_match c t \<and> tone_match c t) ts = Some y" by blast
  then show ?thesis by (simp add: select_best_template_def)
qed

lemma select_genre:
  assumes "\<not> (\<exists>t \<in> set ts. genre_match c t \<and> tone_match c t)"
    and "truthy_str (primary_genre c)" and "\<exists>t \<in> set ts. genre_tag t = primary_genre c"
  shows "select_best_template ts c = find (\<lambda>t. genre_tag t = primary_genre c) ts"
proof -
  from assms(1) have n: "find (\<lambda>t. genre_match c t \<and> tone_match c t) ts = None"
    by (simp add: find_None_iff)
  from find_Some_ex [of ts "\<lambda>t. genre_tag t = primary_genre c"] assms(3)
  obtain y where "find (\<lambda>t. genre_tag t = primary_genre c) ts = Some y" by blast
  with n assms(2) show ?thesis by (simp add: select_best_template_def)
qed

lemma select_tone:
  assumes "\<not> (\<exists>t \<in> set ts. genre_match c t \<and> tone_match c t)"
    and "\<not> (truthy_str (primary_genre c) \<and> (\<exists>t \<in> set ts. genre_tag t = primary_genre c))"
    and "truthy_str (primary_tone c)" and "\<exists>t \<in> set ts. tone_tag t = primary_tone c"
  shows "select_best_template ts c = find (\<lambda>t. tone_tag t = primary_tone c) ts"
proof -
  from assms(1) have n: "find (\<lambda>t. genre_match c t \<and> tone_match c t) ts = None"
    by (simp add: find_None_iff)
  from assms(2) have g: "(if truthy_str (primary_genre c)
      then find (\<lambda>t. genre_tag t = primary_genre c) ts else None) = None"
    by (simp add: find_None_iff)
  from find_Some_ex [of ts "\<lambda>t. tone_tag t = primary_tone c"] assms(4)
  obtain y where "find (\<lambda>t. tone_tag t = primary_tone c) ts = Some y" by blast
  with n g assms(3) show ?thesis by (simp add: select_best_template_def)
qed

lemma select_default:
  assumes "\<not> (\<exists>t \<in> set ts. genre_match c t \<and> tone_match c t)"
    and "\<not> (truthy_str (primary_genre c) \<and> (\<exists>t \<in> set ts. genre_tag t = primary_genre c))"
    and "\<not> (truthy_str (primary_tone c) \<and> (\<exists>t \<in> set ts. tone_tag t = primary_tone c))"
    and "fallback_to_default c"
    and "\<exists>t \<in> set ts. \<not> truthy_str (genre_tag t) \<and> \<not> truthy_str (tone_tag t)"
  shows "select_best_template ts c =
    find (\<lambda>t. \<not> truthy_str (genre_tag t) \<and> \<not> truthy_str (tone_tag t)) ts"
proof -
  from assms(1) have n: "find (\<lambda>t. genre_match c t \<and> tone_match c t) ts = None"
    by (simp add: find_None_iff)
  from assms(2) have g: "(if truthy_str (primary_genre c)
      then find (\<lambda>t. genre_tag t = primary_genre c) ts else None) = None"
    by (simp add: find_None_iff)
  from assms(3) have t: "(if truthy_str (primary_tone c)
      then find (\<lambda>t. tone_tag t = primary_tone c) ts else None) = None"
    by (simp add: find_None_iff)
  from find_Some_ex [of ts "\<lambda>t. \<not> truthy_str (genre_tag t) \<and> \<not> truthy_str (tone_tag t)"] assms(5)
  obtain y where "find (\<lambda>t. \<not> truthy_str (genre_tag t) \<and> \<not> truthy_str (tone_tag t)) ts = Some y"
    by blast
  with n g t assms(4) show ?thesis by (simp add: select_best_template_def)
qed

lemma select_fallback:
  assumes "\<not> (\<exists>t \<in> set ts. genre_match c t \<and> tone_match c t)"
    and "\<not> (truthy_str (primary_genre c) \<and> (\<exists>t \<in> set ts. genre_tag t = primary_genre c))"
    and "\<not> (truthy_str (primary_tone c) \<and> (\<exists>t \<in> set ts. tone_tag t = primary_tone c))"
    and "\<not> (fallback_to_default c
          \<and> (\<exists>t \<in> set ts. \<not> truthy_str (genre_tag t) \<and> \<not> truthy_str (tone_tag t)))"
  shows "select_best_template ts c =
    (if fallback_to_default c \<and> ts \<noteq> [] then Some (hd ts) else None)"
proof -
  from assms(1) have n: "find (\<lambda>t. genre_match c t \<and> tone_match c t) ts = None"
    by (simp add: find_None_iff)
  from assms(2) have g: "(if truthy_str (primary_genre c)
      then find (\<lambda>t. genre_tag t = primary_genre c) ts else None) = None"
    by (simp add: find_None_iff)
  from assms(3) have t: "(if truthy_str (primary_tone c)
      then find (\<lambda>t. tone_tag t = primary_tone c) ts else None) = None"
    by (simp add: find_None_iff)
  from assms(4) have d: "(if fallback_to_default c
      then find (\<lambda>t. \<not> truthy_str (genre_tag t) \<and> \<not> truthy_str (tone_tag t)) ts else None) = None"
    by (simp add: find_None_iff)
  show ?thesis
    unfolding select_best_template_def n g t d
    by (cases ts) simp_all
qed

lemma select_no_criteria:
  assumes "\<not> truthy_str (primary_genre c)" and "\<not> truthy_str (primary_tone c)" and "ts \<noteq> []"
  shows "select_best_template ts c = Some (hd ts)"
proof -
  from assms(3) obtain t rest where ts: "ts = t # rest" by (cases ts) auto
  from assms(1,2) have "genre_match c t \<and> tone_match c t"
    by (simp add: genre_match_def tone_match_def)
  then show ?thesis
    by (simp add: select_best_template_def ts)
qed


text \<open>
  C2 (as amended). Selection runs through five passes over the list, each taking the
  first template in list order that passes its test: a template that matches every
  requested dimension (a dimension that is not requested matches every template); a
  template of the requested genre; a template of the requested tone; if fallback is
  allowed, a template with neither tag; if fallback is allowed, the head of the list.
  With neither genre nor tone requested the first pass accepts every template, so the
  head of the list is selected whatever its tags.
\<close>

theorem select_best_template_precedence:
  "select_best_template ts c =
     (if \<exists>t \<in> set ts. genre_match c t \<and> tone_match c t
        then find (\<lambda>t. genre_match c t \<and> tone_match c t) ts
      else if truthy_str (primary_genre c) \<and> (\<exists>t \<in> set ts. genre_tag t = primary_genre c)
        then find (\<lambda>t. genre_tag t = primary_genre c) ts
      else if truthy_str (primary_tone c) \<and> (\<exists>t \<in> set ts. tone_tag t = primary_tone c)
        then find (\<lambda>t. tone_tag t = primary_tone c) ts
      else if fallback_to_default c
              \<and> (\<exists>t \<in> set ts. \<not> truthy_str (genre_tag t) \<and> \<not> truthy_str (tone_tag t))
        then find (\<lambda>t. \<not> truthy_str (genre_tag t) \<and> \<not> truthy_str (tone_tag t)) ts
      else if fallback_to_default c \<and> ts \<noteq> [] then Some (hd ts)
      else None)
   \<and> (\<not> truthy_str (primary_genre c) \<and> \<not> truthy_str (primary_tone c) \<and> ts \<noteq> [] \<longrightarrow>
        select_best_template ts c = Some (hd ts))"
proof (rule conjI)
  show "select_best_template ts c =
     (if \<exists>t \<in> set ts. genre_match c t \<and> tone_match c t
        then find (\<lambda>t. genre_match c t \<and> tone_match c t) ts
      else if truthy_str (primary_genre c) \<and> (\<exists>t \<in> set ts. genre_tag t = primary_genre c)
        then find (\<lambda>t. genre_tag t = primary_genre c) ts
      else if truthy_str (primary_tone c) \<and> (\<exists>t \<in> set ts. tone_tag t = primary_tone c)
        then find (\<lambda>t. tone_tag t = primary_tone c) ts
      else if fallback_to_default c
              \<and> (\<exists>t \<in> set ts. \<not> truthy_str (genre_tag t) \<and> \<not> truthy_str (tone_tag t))
        then find (\<lambda>t. \<not> truthy_str (genre_tag t) \<and> \<not> truthy_str (tone_tag t)) ts
      else if fallback_to_default c \<and> ts \<noteq> [] then Some (hd ts)
      else None)"
  proof (cases "\<exists>t \<in> set ts. genre_match c t \<and> tone_match c t")
    case True
    then show ?thesis using select_exact [of ts c] by (simp only: if_True)
  next
    case n1: False
    show ?thesis
    proof (cases "truthy_str (primary_genre c) \<and> (\<exists>t \<in> set ts. genre_tag t = primary_genre c)")
      case True
      then show ?thesis using n1 select_genre [of ts c] by (simp only: if_True if_False) simp
    next
      case n2: False
      show ?thesis
      proof (cases "truthy_str (primary_tone c) \<and> (\<exists>t \<in> set ts. tone_tag t = primary_tone c)")
        case True
        then show ?thesis using n1 n2 select_tone [of ts c]
          by (simp only: if_True if_False) simp
      next
        case n3: False
        show ?thesis
        proof (cases "fallback_to_default c
              \<and> (\<exists>t \<in> set ts. \<not> truthy_str (genre_tag t) \<and> \<not> truthy_str (tone_tag t))")
          case True
          then show ?thesis using n1 n2 n3 select_default [of ts c]
            by (simp only: if_True if_False) simp
        next
          case n4: False
          show ?thesis using n1 n2 n3 n4 select_fallback [of ts c]
            by (simp only: if_True if_False) simp
        qed
      qed
    qed
  qed
next
  show "\<not> truthy_str (primary_genre c) \<and> \<not> truthy_str (primary_tone c) \<and> ts \<noteq> [] \<longrightarrow>
        select_best_template ts c = Some (hd ts)"
    using select_no_criteria [of c ts] by blast
qed

theorem select_best_template_precedence_witness:
  "select_best_template [untagged, comedy_only, comedy_dark]
       (request_for (Some ''comedy'') (Some ''dark'')) = Some comedy_dark
   \<and> select_best_template [untagged, comedy_only, comedy_dark]
       (request_for (Some ''comedy'') (Some ''light'')) = Some comedy_only
   \<and> select_best_template [untagged, comedy_only, comedy_dark]
       (request_for None None) = Some untagged
   \<and> select_best_template [comedy_dark, comedy_only, untagged]
       (request_for (Some ''comedy'') (Some ''dark'')) = Some comedy_dark"
  using select_best_template_precedence [of "[untagged, comedy_only, comedy_dark]"
      "request_for (Some ''comedy'') (Some ''dark'')"]
    select_best_template_precedence [of "[untagged, comedy_only, comedy_dark]"
      "request_for (Some ''comedy'') (Some ''light'')"]
    select_best_template_precedence [of "[untagged, comedy_only, comedy_dark]"
      "request_for None None"]
    select_best_template_precedence [of "[comedy_dark, comedy_only, untagged]"
      "request_for (Some ''comedy'') (Some ''dark'')"]
  by (simp add: request_for_def untagged_def comedy_only_def comedy_dark_def
      genre_match_def tone_match_def)

text \<open>
  With the three templates listed as the claim lists them, a request for comedy and
  light selects the comedy and dark template (the genre pass takes the first template
  of the genre, whatever its tone), and a request without genre and tone selects it as
  well, not the untagged one.
\<close>

theorem select_best_template_order_counterexample:
  "select_best_template [comedy_dark, comedy_only, untagged]
       (request_for (Some ''comedy'') (Some ''light'')) = Some comedy_dark
   \<and> comedy_dark \<noteq> comedy_only
   \<and> select_best_template [comedy_dark, comedy_only, untagged]
       (request_for None None) = Some comedy_dark
   \<and> comedy_dark \<noteq> untagged"
  by (simp add: select_best_template_def request_for_def untagged_def comedy_only_def
      comedy_dark_def genre_match_def tone_match_def)

subsection \<open>C1: word-limit flags of the draft\_story\_arc pipeline\<close>

lemma StoryArc_no_beginning:
  "StoryArc_getattr story_arc ''beginning'' = Inl (no_attribute ''StoryArc'' ''beginning'')"
  by (simp add: StoryArc_getattr_def)

lemma WordCountAnalysis_no_violation_codes:
  "WordCountAnalysis_getattr analysis ''violation_codes'' =
     Inl (no_attribute ''WordCountAnalysis'' ''violation_codes'')"
  by (simp add: WordCountAnalysis_getattr_def)

text \<open>
  C1. The claim says that the analysis counts the words of the three sections and
  raises one word-limit flag above a limit. The analysis reads the sections of the arc
  as \<open>beginning\<close>, \<open>middle\<close> and \<open>end\<close>, names that \<open>StoryArc\<close> does not declare: for
  every story arc and every configuration its first statement raises \<open>AttributeError\<close>,
  no word is counted and no flag is built. Called on its own,
  \<open>_create_word_limit_flags\<close> raises as well, for every analysis, on the read of
  \<open>violation_codes\<close>.
\<close>

theorem word_count_analysis_raises:
  "analyze_word_counts config story_arc = Inl (no_attribute ''StoryArc'' ''beginning'')
   \<and> word_count_flags config story_arc = Inl (no_attribute ''StoryArc'' ''beginning'')
   \<and> create_word_limit_flags config analysis =
       Inl (no_attribute ''WordCountAnalysis'' ''violation_codes'')
   \<and> no_attribute ''StoryArc'' ''beginning'' =
       AttributeError ([CHR 0x27] @ ''StoryArc'' @ [CHR 0x27] @ '' object has no attribute ''
                       @ [CHR 0x27] @ ''beginning'' @ [CHR 0x27])"
proof -
  have a: "analyze_word_counts config story_arc = Inl (no_attribute ''StoryArc'' ''beginning'')"
    by (simp add: analyze_word_counts_def StoryArc_no_beginning)
  then have w: "word_count_flags config story_arc = Inl (no_attribute ''StoryArc'' ''beginning'')"
    by (simp add: word_count_flags_def)
  have c: "create_word_limit_flags config analysis =
       Inl (no_attribute ''WordCountAnalysis'' ''violation_codes'')"
    by (simp add: create_word_limit_flags_def WordCountAnalysis_no_violation_codes)
  have n: "no_attribute ''StoryArc'' ''beginning'' =
       AttributeError ([CHR 0x27] @ ''StoryArc'' @ [CHR 0x27] @ '' object has no attribute ''
                       @ [CHR 0x27] @ ''beginning'' @ [CHR 0x27])"
    by (simp add: no_attribute_def)
  from a w c n show ?thesis by (intro conjI)
qed

text \<open>
  The arc of eleven words under the limits 10 and 12: its sections have four, four and
  three words, a total above the soft limit, and the analysis raises.
\<close>

lemma eleven_word_arc_raises:
  "length (split (arc_setup eleven_word_arc)) + length (split (arc_escalation eleven_word_arc))
     + length (split (arc_resolution eleven_word_arc)) = 11
   \<and> word_limit_soft short_limits_config = 10 \<and> word_limit_hard short_limits_config = 12
   \<and> word_count_flags short_limits_config eleven_word_arc =
       Inl (no_attribute ''StoryArc'' ''beginning'')"
proof -
  have l: "length (split (arc_setup eleven_word_arc)) + length (split (arc_escalation eleven_word_arc))
     + length (split (arc_resolution eleven_word_arc)) = 11"
    by (simp add: eleven_word_arc_def split_def is_space_def)
  have s: "word_limit_soft short_limits_config = 10 \<and> word_limit_hard short_limits_config = 12"
    by (simp add: short_limits_config_def)
  have a: "analyze_word_counts short_limits_config eleven_word_arc =
      Inl (no_attribute ''StoryArc'' ''beginning'')"
    by (simp add: analyze_word_counts_def StoryArc_no_beginning)
  then have w: "word_count_flags short_limits_config eleven_word_arc =
      Inl (no_attribute ''StoryArc'' ''beginning'')"
    by (simp add: word_count_flags_def)
  from l s w show ?thesis by (intro conjI) simp_all
qed

subsection \<open>C8: the seed of a concept brief\<close>

text \<open>
  C8 (as amended). With deterministic seeding enabled and no project id (\<open>None\<close> or the
  empty string), the seed is the first 16 characters of
  \<open>sha256("story-architect:" + h)\<close>, \<open>h\<close> being the first 16 characters of
  \<open>sha256("title:logline:core_conflict")\<close>. It does not depend on the CMS, so the same
  brief gives the same seed on every call, and it has at most 16 characters. Changing
  one of title, logline and core conflict changes the string that is hashed; two briefs
  get different seeds exactly when the truncated digests differ.
\<close>

theorem seed_derivation:
  assumes "deterministic_seed_enabled config" and "\<not> truthy_str project"
  shows "get_or_generate_seed sha256_hex cms config b project =
      Some (take 16 (sha256_hex (''story-architect:'' @
              take 16 (sha256_hex (title b @ '':'' @ logline b @ '':'' @ core_conflict b)))))
    \<and> get_or_generate_seed sha256_hex cms' config b project =
        get_or_generate_seed sha256_hex cms config b project
    \<and> length (the (get_or_generate_seed sha256_hex cms config b project)) \<le> 16
    \<and> (title b \<noteq> title b' \<and> logline b = logline b' \<and> core_conflict b = core_conflict b'
        \<or> title b = title b' \<and> logline b \<noteq> logline b' \<and> core_conflict b = core_conflict b'
        \<or> title b = title b' \<and> logline b = logline b' \<and> core_conflict b \<noteq> core_conflict b'
       \<longrightarrow> title b @ '':'' @ logline b @ '':'' @ core_conflict b
            \<noteq> title b' @ '':'' @ logline b' @ '':'' @ core_conflict b')
    \<and> (take 16 (sha256_hex (''story-architect:'' @
              take 16 (sha256_hex (title b @ '':'' @ logline b @ '':'' @ core_conflict b))))
         \<noteq> take 16 (sha256_hex (''story-architect:'' @
              take 16 (sha256_hex (title b' @ '':'' @ logline b' @ '':'' @ core_conflict b'))))
       \<longleftrightarrow> get_or_generate_seed sha256_hex cms config b project
            \<noteq> get_or_generate_seed sha256_hex cms config b' project)"
proof -
  have seed: "get_or_generate_seed sha256_hex cms'' config b'' project =
      Some (take 16 (sha256_hex (''story-architect:'' @
              take 16 (sha256_hex (title b'' @ '':'' @ logline b'' @ '':'' @ core_conflict b'')))))"
    for cms'' b''
    using assms by (simp add: get_or_generate_seed_def Let_def)
  have inj: "title b \<noteq> title b' \<and> logline b = logline b' \<and> core_conflict b = core_conflict b'
        \<or> title b = title b' \<and> logline b \<noteq> logline b' \<and> core_conflict b = core_conflict b'
        \<or> title b = title b' \<and> logline b = logline b' \<and> core_conflict b \<noteq> core_conflict b'
       \<longrightarrow> title b @ '':'' @ logline b @ '':'' @ core_conflict b
            \<noteq> title b' @ '':'' @ logline b' @ '':'' @ core_conflict b'"
    by auto
  show ?thesis
    unfolding seed using inj by simp
qed


theorem seed_derivation_witness:
  "deterministic_seed_enabled override_zero_config \<and> \<not> truthy_str None
   \<and> get_or_generate_seed (\<lambda>s. s) (\<lambda>p h. Inr ''stored'') override_zero_config
         (brief_titled ''Detox'') None = Some ''story-architect:''
   \<and> get_or_generate_seed (\<lambda>s. s) (\<lambda>p h. Inr ''stored'') override_zero_config
         (brief_titled ''Detox'') (Some []) = Some ''story-architect:''"
  using seed_derivation [of override_zero_config None "\<lambda>s. s" "\<lambda>p h. Inr ''stored''"
      "brief_titled ''Detox''" "\<lambda>p h. Inr ''stored''" "brief_titled ''Detox''"]
    seed_derivation [of override_zero_config "Some []" "\<lambda>s. s" "\<lambda>p h. Inr ''stored''"
      "brief_titled ''Detox''" "\<lambda>p h. Inr ''stored''" "brief_titled ''Detox''"]
  by (simp add: override_zero_config_def brief_titled_def)

lemma short_strings_finite: "finite {s :: string. length s \<le> 16}"
  using finite_lists_length_le [of "UNIV :: char set" 16] by simp

lemma strip_letters: "strip (replicate (Suc n) CHR ''a'') = replicate (Suc n) CHR ''a''"
proof -
  have a: "\<not> is_space CHR ''a''" by (simp add: is_space_def)
  have d: "dropWhile is_space (replicate (Suc n) CHR ''a'') = replicate (Suc n) CHR ''a''"
    using a by simp
  have r: "rev (replicate (Suc n) CHR ''a'') = replicate (Suc n) CHR ''a''"
    by (rule rev_replicate)
  show ?thesis
    unfolding strip_def by (simp only: d r)
qed

text \<open>
  The claim as stated says that changing the title always changes the seed. A seed has
  at most 16 characters, so there are finitely many seeds and infinitely many titles:
  whatever the hash function, two briefs that differ in the title alone share a seed.
\<close>

theorem seed_collision_counterexample:
  "\<forall>sha256_hex cms. \<exists>b b'.
      title b \<noteq> title b' \<and> logline b = logline b' \<and> core_conflict b = core_conflict b'
      \<and> title b \<noteq> [] \<and> strip (title b) = title b
      \<and> title b' \<noteq> [] \<and> strip (title b') = title b'
      \<and> get_or_generate_seed sha256_hex cms override_zero_config b None =
          get_or_generate_seed sha256_hex cms override_zero_config b' None"
proof (intro allI)
  fix sha256_hex :: "string \<Rightarrow> string" and cms :: "string \<Rightarrow> string \<Rightarrow> py_error + string"
  define seed_of where "seed_of n =
      take 16 (sha256_hex (''story-architect:'' @
        take 16 (sha256_hex (replicate (Suc n) CHR ''a'' @ '':logline:conflict''))))" for n :: nat
  have "range seed_of \<subseteq> {s. length s \<le> 16}"
    by (auto simp add: seed_of_def)
  then have "finite (range seed_of)"
    using short_strings_finite by (rule finite_subset)
  then have "\<not> inj seed_of"
    using finite_imageD [of seed_of UNIV] by auto
  then obtain n m where nm: "n \<noteq> m" and eq: "seed_of n = seed_of m"
    by (auto simp add: inj_on_def)
  let ?b = "brief_titled (replicate (Suc n) CHR ''a'')"
  let ?b' = "brief_titled (replicate (Suc m) CHR ''a'')"
  have en: "deterministic_seed_enabled override_zero_config"
    by (simp add: override_zero_config_def)
  have t: "title ?b \<noteq> title ?b'"
  proof
    assume "title ?b = title ?b'"
    then have "length (replicate (Suc n) CHR ''a'') = length (replicate (Suc m) CHR ''a'')"
      by (simp add: brief_titled_def)
    with nm show False by simp
  qed
  have s: "get_or_generate_seed sha256_hex cms override_zero_config ?b None = Some (seed_of n)"
    using en by (simp add: get_or_generate_seed_def Let_def brief_titled_def seed_of_def)
  have s': "get_or_generate_seed sha256_hex cms override_zero_config ?b' None = Some (seed_of m)"
    using en by (simp add: get_or_generate_seed_def Let_def brief_titled_def seed_of_def)
  have ne: "title ?b \<noteq> []" "title ?b' \<noteq> []"
    by (simp_all add: brief_titled_def)
  have st: "strip (title ?b) = title ?b" "strip (title ?b') = title ?b'"
    by (simp_all add: brief_titled_def strip_letters del: replicate_Suc)
  have lc: "logline ?b = logline ?b'" "core_conflict ?b = core_conflict ?b'"
    by (simp_all add: brief_titled_def)
  have sd: "get_or_generate_seed sha256_hex cms override_zero_config ?b None =
          get_or_generate_seed sha256_hex cms override_zero_config ?b' None"
    unfolding s s' using eq by simp
  show "\<exists>b b'.
      title b \<noteq> title b' \<and> logline b = logline b' \<and> core_conflict b = core_conflict b'
      \<and> title b \<noteq> [] \<and> strip (title b) = title b
      \<and> title b' \<noteq> [] \<and> strip (title b') = title b'
      \<and> get_or_generate_seed sha256_hex cms override_zero_config b None =
          get_or_generate_seed sha256_hex cms override_zero_config b' None"
    by (rule exI [of _ ?b], rule exI [of _ ?b']) (intro conjI t lc ne st sd)
qed

subsection \<open>C3: exceptions that escape the draft\_story\_arc tool\<close>

text \<open>
  C3. The claim says that \<open>execute\<close> never raises, whatever the arguments. The trace
  context is extracted before the \<open>try\<close>, and the extraction calls \<open>get\<close> on the
  guidelines and on their \<open>trace_headers\<close>. With guidelines that are a string, and with
  guidelines whose \<open>trace_headers\<close> are \<open>null\<close>, the call raises \<open>AttributeError\<close> and
  \<open>execute\<close> lets it escape: no envelope is returned.
\<close>

theorem execute_draft_raises:
  "execute_draft env string_guidelines_input =
     Raised (AttributeError ([CHR 0x27] @ ''str'' @ [CHR 0x27] @ '' object has no attribute ''
                             @ [CHR 0x27] @ ''get'' @ [CHR 0x27]))
   \<and> execute_draft env null_trace_headers_input =
     Raised (AttributeError ([CHR 0x27] @ ''NoneType'' @ [CHR 0x27] @ '' object has no attribute ''
                             @ [CHR 0x27] @ ''get'' @ [CHR 0x27]))"
  by (simp add: execute_draft_def extract_trace_context_def py_get_def
      string_guidelines_input_def null_trace_headers_input_def)

text \<open>
  Once the trace context is extracted, \<open>execute\<close> returns whatever the pipeline does; a
  call without guidelines is such a case.
\<close>

lemma execute_draft_returns:
  "extract_trace_context env input_data = Inr tc \<Longrightarrow> \<exists>r. execute_draft env input_data = Returned r"
  by (simp add: execute_draft_def split: sum.splits)

lemma execute_draft_no_guidelines:
  assumes "map_of input_data ''creative_guidelines'' = None"
    and "optional_str_field env JNull = Inr None"
  shows "\<exists>r. execute_draft env input_data = Returned r"
proof -
  from assms have "\<exists>tc. extract_trace_context env input_data = Inr tc"
    by (simp add: extract_trace_context_def py_get_def)
  then show ?thesis using execute_draft_returns by blast
qed

end
